theory Spec2Isabelle
  imports Complex_Main
begin

section \<open>Errors\<close>

text \<open>
  The MEX sources end a call in three ways besides returning: \<^verbatim>\<open>mex_abort\<close> with a
  message, \<^verbatim>\<open>srsran_terminate\<close> with a message, and an access outside a container of the
  PHY library or outside an array of the host. Each place of the sources that does so is
  one constructor below; the arguments are the values the message is formatted with, or
  the index and size of the access.

  Modelled from the spec: \<^verbatim>\<open>mex_abort\<close> is declared in the dispatcher header
  \<^verbatim>\<open>srsran_mex_dispatcher.h\<close> and \<^verbatim>\<open>srsran_terminate\<close> in the PHY library; neither is among
  the sources. The specification has every error synchronous and ending the current call
  only, so both end the call with their error, and a call that ended so has no output.
\<close>

datatype mex_error =
    Wrong_number_of_inputs nat nat
    \<comment> \<open>"Wrong number of inputs" (expected, provided)\<close>
  | Prach_symbols_not_complex_double
    \<comment> \<open>"Input 'prach_symbols' must be an array of double."\<close>
  | Config_not_scalar_structure
    \<comment> \<open>"Input 'config' must be a scalar structure."\<close>
  | Wrong_number_of_outputs nat nat
    \<comment> \<open>"Wrong number of outputs" (expected, provided)\<close>
  | Invalid_number_of_dimensions nat
    \<comment> \<open>"Invalid number of dimensions (i.e., {})."\<close>
  | Invalid_number_of_samples "nat list"
    \<comment> \<open>"Invalid number of samples. Dimensions=[{}]."\<close>
  | Cannot_create_prach_buffer
    \<comment> \<open>"Cannot create srsran PRACH buffer long."\<close>
  | No_prach_preambles_detected
    \<comment> \<open>"No PRACH preambles were detected."\<close>
  | RxGrid_not_complex_float_array
    \<comment> \<open>"Input 'rxGrid' should be a 2- or 3-dimensional array of complex floats."\<close>
  | SymbolAllocation_not_two_elements
    \<comment> \<open>"Input 'symbolAllocation' should contain two elements only."\<close>
  | RefSym_not_column_array
    \<comment> \<open>"Input 'refSym' should be a column array of complex float symbols."\<close>
  | Cannot_create_resource_grid
    \<comment> \<open>"Cannot create resource grid."\<close>
  | Port_indices_mismatch nat nat
    \<comment> \<open>"PortIndices and number of resource grid ports do not match: {} vs. {}."\<close>
  | Unexpected_number_of_dmrs_symbols nat nat
    \<comment> \<open>"Expected {} DM-RS symbols, received {}."\<close>
  | Unknown_modulation string
    \<comment> \<open>\<^verbatim>\<open>srsran_terminate("Unknown modulation {}.")\<close>\<close>
  | Unknown_base_graph nat
    \<comment> \<open>\<^verbatim>\<open>srsran_terminate("Unknown base graph {}.")\<close>\<close>
  | Unknown_restricted_set string
    \<comment> \<open>\<^verbatim>\<open>srsran_terminate("Unknown restricted set {}.")\<close>\<close>
  | Unknown_cyclic_prefix string
    \<comment> \<open>for a conversion of the cyclic prefix that rejects its argument\<close>
  | Unknown_subcarrier_spacing nat
    \<comment> \<open>for a conversion of the subcarrier spacing that rejects its argument\<close>
  | Symbol_index_out_of_range nat
    \<comment> \<open>\<^verbatim>\<open>buffer->get_symbol(0, 0, 0, i_symbol)\<close> with no such symbol in the buffer\<close>
  | Sample_index_out_of_range nat
    \<comment> \<open>\<^verbatim>\<open>symbol_view[i_sample]\<close> past the end of the view\<close>
  | Host_index_out_of_range nat nat
    \<comment> \<open>\<^verbatim>\<open>in_cft_array[i][j]\<close> with no such element in the host array (i, j)\<close>
  | Bitset_capacity_exceeded nat nat
    \<comment> \<open>a \<^verbatim>\<open>bounded_bitset<N>\<close> built from more than \<^verbatim>\<open>N\<close> bits (size, capacity)\<close>
  | Span_out_of_range nat nat
    \<comment> \<open>\<^verbatim>\<open>span::first(n)\<close> or \<^verbatim>\<open>span::last(n)\<close> on a shorter span (requested, size)\<close>
  | Slice_out_of_range nat
    \<comment> \<open>\<^verbatim>\<open>set_slice\<close> with a wrong index or a view of the wrong size\<close>
  | Copy_out_of_range nat nat
    \<comment> \<open>\<^verbatim>\<open>std::copy_n\<close> running past the end of the output array (end, size)\<close>
  | Struct_index_out_of_range nat
    \<comment> \<open>\<^verbatim>\<open>info_out[i_port]\<close> with no such element in the structure array (size)\<close>

section \<open>Conversions from MATLAB tags: \<^verbatim>\<open>matlab_to_srs.h\<close>\<close>

datatype modulation_scheme = BPSK | QPSK | QAM16 | QAM64 | QAM256

datatype ldpc_base_graph_type = BG1 | BG2

datatype restricted_set_config = UNRESTRICTED | TYPE_A | TYPE_B

datatype preamble_format = FORMAT0 | FORMAT1 | FORMAT2 | FORMAT3 | OTHER

definition matlab_to_srs_modulation :: "string \<Rightarrow> mex_error + modulation_scheme" where
  "matlab_to_srs_modulation modulation_name =
     (if modulation_name = ''BPSK'' \<or> modulation_name = ''pi/2-BPSK'' then Inr BPSK
      else if modulation_name = ''QPSK'' then Inr QPSK
      else if modulation_name = ''QAM16'' \<or> modulation_name = ''16QAM'' then Inr QAM16
      else if modulation_name = ''QAM64'' \<or> modulation_name = ''64QAM'' then Inr QAM64
      else if modulation_name = ''QAM256'' \<or> modulation_name = ''256QAM'' then Inr QAM256
      else Inl (Unknown_modulation modulation_name))"

definition matlab_to_srs_base_graph :: "nat \<Rightarrow> mex_error + ldpc_base_graph_type" where
  "matlab_to_srs_base_graph bg =
     (if bg = 1 then Inr BG1
      else if bg = 2 then Inr BG2
      else Inl (Unknown_base_graph bg))"

definition matlab_to_srs_restricted_set :: "string \<Rightarrow> mex_error + restricted_set_config" where
  "matlab_to_srs_restricted_set restricted_set =
     (if restricted_set = ''UnrestrictedSet'' then Inr UNRESTRICTED
      else if restricted_set = ''RestrictedSetTypeA'' then Inr TYPE_A
      else if restricted_set = ''RestrictedSetTypeB'' then Inr TYPE_B
      else Inl (Unknown_restricted_set restricted_set))"

text \<open>
  The preamble format conversion has no terminating branch: its last statement returns
  \<^verbatim>\<open>preamble_format::OTHER\<close>. It is a total function into the enumeration.
\<close>

definition matlab_to_srs_preamble_format :: "string \<Rightarrow> preamble_format" where
  "matlab_to_srs_preamble_format preamble_format =
     (if preamble_format = ''0'' then FORMAT0
      else if preamble_format = ''1'' then FORMAT1
      else if preamble_format = ''2'' then FORMAT2
      else if preamble_format = ''3'' then FORMAT3
      else OTHER)"

text \<open>The tags each conversion compares its argument with.\<close>

definition modulation_names :: "string list" where
  "modulation_names =
     [''BPSK'', ''pi/2-BPSK'', ''QPSK'', ''QAM16'', ''16QAM'', ''QAM64'', ''64QAM'',
      ''QAM256'', ''256QAM'']"

definition restricted_set_names :: "string list" where
  "restricted_set_names = [''UnrestrictedSet'', ''RestrictedSetTypeA'', ''RestrictedSetTypeB'']"

definition preamble_format_digits :: "string list" where
  "preamble_format_digits = [''0'', ''1'', ''2'', ''3'']"

section \<open>Values exchanged with the host\<close>

text \<open>
  Floating-point numbers (\<^verbatim>\<open>float\<close>, \<^verbatim>\<open>double\<close>) are modelled by the reals and complex
  samples (\<^verbatim>\<open>cf_t\<close>, \<^verbatim>\<open>std::complex<double>\<close>) by the complex numbers: rounding is not
  modelled, and a conversion between the two precisions is the identity. The one
  non-real value the sources create, a quiet NaN, is a constructor of its own.
\<close>

type_synonym cf_t = complex

definition cf_t :: "complex \<Rightarrow> cf_t" where
  "cf_t z = z"

text \<open>\<^verbatim>\<open>matlab::data::ArrayType\<close>, the class of a host array.\<close>

datatype ArrayType =
  LOGICAL | CHAR | DOUBLE | SINGLE | COMPLEX_DOUBLE | COMPLEX_SINGLE | STRUCT | CELL

text \<open>
  A scalar made by \<^verbatim>\<open>factory.createScalar\<close>, tagged with the C++ type of its argument,
  and a host structure as the list of its fields in the order \<^verbatim>\<open>createStructArray\<close>
  names them.
\<close>

datatype mx_scalar =
    Scalar_size_t nat
  | Scalar_unsigned nat
  | Scalar_float real
  | Scalar_double real
  | Scalar_double_NaN

type_synonym mx_struct = "(string \<times> mx_scalar) list"

text \<open>
  An \<^verbatim>\<open>unsigned\<close> initialised from a \<^verbatim>\<open>std::size_t\<close> keeps the low 32 bits.
\<close>

definition to_unsigned :: "nat \<Rightarrow> nat" where
  "to_unsigned n = n mod 2 ^ 32"

text \<open>The difference of two \<^verbatim>\<open>unsigned\<close> values wraps around.\<close>

definition unsigned_minus :: "nat \<Rightarrow> nat \<Rightarrow> nat" where
  "unsigned_minus a b = (a + 2 ^ 32 - b) mod 2 ^ 32"

text \<open>
  A \<^verbatim>\<open>phy_time_unit\<close> is represented by the duration it stands for;
  \<^verbatim>\<open>to_seconds\<close> reads it in seconds.
\<close>

datatype phy_time_unit = Phy_time_unit (to_seconds: real)

section \<open>PRACH detector: \<^verbatim>\<open>prach_detector_mex.cpp\<close>\<close>

subsection \<open>Types of the PHY library\<close>

record prach_detector_configuration =
  root_sequence_index :: nat
  format :: preamble_format
  restricted_set :: restricted_set_config
  zero_correlation_zone :: nat
  start_preamble_index :: nat
  nof_preamble_indices :: nat

record preamble_indication =
  preamble_index :: nat
  time_advance :: phy_time_unit
  power_dB :: real
  snr_dB :: real

record prach_detection_result =
  rssi_dB :: real
  time_resolution :: phy_time_unit
  time_advance_max :: phy_time_unit
  preambles :: "preamble_indication list"

text \<open>
  A PRACH buffer, seen through \<^verbatim>\<open>get_symbol(0, 0, 0, i_symbol)\<close>: the symbols of port 0,
  time-domain occasion 0 and frequency-domain occasion 0, each the list of its samples.
  The symbol \<open>i_symbol\<close> exists when \<open>i_symbol < length buffer\<close>.
\<close>

type_synonym prach_buffer = "cf_t list list"

text \<open>
  What the MEX function takes from the PHY library and its headers, none of which is part
  of the MEX sources: the two sequence lengths of \<^verbatim>\<open>prach_constants\<close>, the two buffer
  factories (\<open>None\<close> is a null pointer) and the detector.
\<close>

record prach_library =
  LONG_SEQUENCE_LENGTH :: nat
  SHORT_SEQUENCE_LENGTH :: nat
  create_prach_buffer_long :: "nat \<Rightarrow> prach_buffer option"
  create_prach_buffer_short :: "nat \<Rightarrow> nat \<Rightarrow> prach_buffer option"
  detect :: "prach_buffer \<Rightarrow> prach_detector_configuration \<Rightarrow> prach_detection_result"

subsection \<open>The call\<close>

text \<open>The fields of the host structure \<^verbatim>\<open>config\<close> that \<^verbatim>\<open>method_step\<close> reads.\<close>

record prach_config_struct =
  cfg_restricted_set :: string
  cfg_root_sequence_index :: nat
  cfg_format :: string
  cfg_zero_correlation_zone :: nat

text \<open>
  One call of the \<^verbatim>\<open>step\<close> method: the sizes and classes that
  \<^verbatim>\<open>check_step_outputs_inputs\<close> inspects, the dimensions of \<^verbatim>\<open>inputs[1]\<close>, its elements
  (\<open>in_cft_array call i j\<close> is the element of row \<open>i\<close> and column \<open>j\<close>, for the indices the
  array has), and the configuration.
\<close>

record prach_call =
  inputs_size :: nat
  prach_symbols_type :: ArrayType
  config_type :: ArrayType
  config_number_of_elements :: nat
  outputs_size :: nat
  buffer_dimensions :: "nat list"
  in_cft_array :: "nat \<Rightarrow> nat \<Rightarrow> complex"
  in_det_cfg :: prach_config_struct

text \<open>
  What a call does besides returning: the lines it prints and the call of the detector,
  in the order they happen.
\<close>

datatype event =
    Print_dimensions "nat list"
  | Print_i_symbol nat
  | Print_skipping
  | Detect prach_buffer prach_detector_configuration

definition prach_check_step_outputs_inputs :: "prach_call \<Rightarrow> mex_error option" where
  "prach_check_step_outputs_inputs call =
     (if inputs_size call \<noteq> 3 then Some (Wrong_number_of_inputs 3 (inputs_size call))
      else if prach_symbols_type call \<noteq> COMPLEX_DOUBLE then Some Prach_symbols_not_complex_double
      else if config_type call \<noteq> STRUCT \<or> config_number_of_elements call > 1
        then Some Config_not_scalar_structure
      else if outputs_size call \<noteq> 1 then Some (Wrong_number_of_outputs 1 (outputs_size call))
      else None)"

text \<open>Lines 81 to 92: the buffer is chosen by the number of samples.\<close>

definition create_buffer ::
  "prach_library \<Rightarrow> nat list \<Rightarrow> nat \<Rightarrow> nat \<Rightarrow> mex_error + prach_buffer" where
  "create_buffer lib dims nof_samples nof_symbols =
     (if nof_samples = LONG_SEQUENCE_LENGTH lib then
        (case create_prach_buffer_long lib nof_symbols of
           None \<Rightarrow> Inl Cannot_create_prach_buffer
         | Some buffer \<Rightarrow> Inr buffer)
      else if nof_samples = SHORT_SEQUENCE_LENGTH lib then
        (case create_prach_buffer_short lib 1 1 of
           None \<Rightarrow> Inl Cannot_create_prach_buffer
         | Some buffer \<Rightarrow> Inr buffer)
      else Inl (Invalid_number_of_samples dims))"

text \<open>
  The read \<^verbatim>\<open>in_cft_array[i][j]\<close> of line 99. The host interface is not part of the
  sources: the typed array of the MATLAB Data API takes the first index along the first
  dimension and the second along the second, and raises an exception, which ends the
  call, for an index that is not less than the dimension. The array of \<^verbatim>\<open>method_step\<close>
  has the dimensions \<^verbatim>\<open>[nof_samples, nof_symbols]\<close>.
\<close>

definition host_read ::
  "nat list \<Rightarrow> (nat \<Rightarrow> nat \<Rightarrow> complex) \<Rightarrow> nat \<Rightarrow> nat \<Rightarrow> mex_error + complex" where
  "host_read dims arr i j =
     (if length dims = 2 \<and> i < dims ! 0 \<and> j < dims ! 1 then Inr (arr i j)
      else Inl (Host_index_out_of_range i j))"

text \<open>
  Lines 98 to 100, the inner loop over \<open>i_sample\<close>: \<open>row\<close> is \<^verbatim>\<open>in_cft_array[i_symbol]\<close>. The
  right-hand side of the assignment, the read from the host array, is evaluated before
  the element of the view is addressed.
\<close>

primrec fill_samples ::
  "(nat \<Rightarrow> mex_error + complex) \<Rightarrow> nat list \<Rightarrow> cf_t list \<Rightarrow> mex_error + cf_t list" where
  "fill_samples row [] symbol_view = Inr symbol_view"
| "fill_samples row (i_sample # rest) symbol_view =
     (case row i_sample of
        Inl e \<Rightarrow> Inl e
      | Inr sample \<Rightarrow>
          if i_sample < length symbol_view
          then fill_samples row rest (symbol_view[i_sample := cf_t sample])
          else Inl (Sample_index_out_of_range i_sample))"

text \<open>
  Lines 95 to 101, the outer loop over \<open>i_symbol\<close>: the line is printed, the view of the
  symbol is taken from the buffer, and the inner loop reads row \<open>i_symbol\<close> of the host
  array into it.
\<close>

primrec fill_symbols ::
  "nat list \<Rightarrow> (nat \<Rightarrow> nat \<Rightarrow> complex) \<Rightarrow> nat \<Rightarrow> nat list \<Rightarrow> prach_buffer
     \<Rightarrow> event list \<times> (mex_error + prach_buffer)" where
  "fill_symbols dims arr nof_samples [] buffer = ([], Inr buffer)"
| "fill_symbols dims arr nof_samples (i_symbol # rest) buffer =
     (if i_symbol < length buffer then
        (case fill_samples (host_read dims arr i_symbol) [0..<nof_samples] (buffer ! i_symbol) of
           Inl e \<Rightarrow> ([Print_i_symbol i_symbol], Inl e)
         | Inr symbol_view \<Rightarrow>
             (case fill_symbols dims arr nof_samples rest (buffer[i_symbol := symbol_view]) of
                (events, r) \<Rightarrow> (Print_i_symbol i_symbol # events, r)))
      else ([Print_i_symbol i_symbol], Inl (Symbol_index_out_of_range i_symbol)))"

definition fill_buffer ::
  "nat list \<Rightarrow> (nat \<Rightarrow> nat \<Rightarrow> complex) \<Rightarrow> nat \<Rightarrow> nat \<Rightarrow> prach_buffer
     \<Rightarrow> event list \<times> (mex_error + prach_buffer)" where
  "fill_buffer dims arr nof_samples nof_symbols buffer =
     fill_symbols dims arr nof_samples [0..<nof_symbols] buffer"

text \<open>Lines 107 to 132: the structure returned for a detection result.\<close>

definition detected_preamble_indication :: "prach_detection_result \<Rightarrow> mex_error + mx_struct" where
  "detected_preamble_indication result =
     (let nof_detected_preambles = to_unsigned (length (preambles result)) in
      if nof_detected_preambles = 0 then Inl No_prach_preambles_detected
      else
        (let preamble_indication = last (preambles result) in
         Inr [(''nof_detected_preambles'', Scalar_size_t (length (preambles result))),
              (''preamble_index'', Scalar_unsigned (preamble_index preamble_indication)),
              (''time_advance'', Scalar_double (to_seconds (time_advance preamble_indication))),
              (''power_dB'', Scalar_float (power_dB preamble_indication)),
              (''snr_dB'', Scalar_float (snr_dB preamble_indication)),
              (''rssi_dB'', Scalar_float (rssi_dB result)),
              (''time_resolution'', Scalar_double (to_seconds (time_resolution result))),
              (''time_advance_max'', Scalar_double (to_seconds (time_advance_max result)))]))"

text \<open>Lines 61 to 66: the detector configuration of the unrestricted branch.\<close>

definition detector_config_of :: "prach_config_struct \<Rightarrow> prach_detector_configuration" where
  "detector_config_of cfg =
     \<lparr>root_sequence_index = cfg_root_sequence_index cfg,
      format = matlab_to_srs_preamble_format (cfg_format cfg),
      restricted_set = UNRESTRICTED,
      zero_correlation_zone = cfg_zero_correlation_zone cfg,
      start_preamble_index = 0,
      nof_preamble_indices = 64\<rparr>"

text \<open>
  Lines 94 to 132: what \<^verbatim>\<open>method_step\<close> does once the buffer exists. The events are
  those after the dimensions were printed.
\<close>

definition fill_and_detect ::
  "prach_library \<Rightarrow> prach_call \<Rightarrow> nat \<Rightarrow> nat \<Rightarrow> prach_buffer
     \<Rightarrow> event list \<times> (mex_error + mx_struct option)" where
  "fill_and_detect lib call nof_samples nof_symbols buffer =
     (let detector_config = detector_config_of (in_det_cfg call) in
      case fill_buffer (buffer_dimensions call) (in_cft_array call) nof_samples nof_symbols
             buffer of
        (events, Inl e) \<Rightarrow> (events, Inl e)
      | (events, Inr filled) \<Rightarrow>
          (events @ [Detect filled detector_config],
           map_sum id Some (detected_preamble_indication (detect lib filled detector_config))))"

text \<open>
  \<^verbatim>\<open>MexFunction::method_step\<close>. The result is the events of the call and either the error
  that ended it or the value of \<^verbatim>\<open>outputs[0]\<close>, \<open>None\<close> when nothing was assigned to it.
\<close>

definition prach_method_step ::
  "prach_library \<Rightarrow> prach_call \<Rightarrow> event list \<times> (mex_error + mx_struct option)" where
  "prach_method_step lib call =
     (case prach_check_step_outputs_inputs call of
        Some e \<Rightarrow> ([], Inl e)
      | None \<Rightarrow>
        (case matlab_to_srs_restricted_set (cfg_restricted_set (in_det_cfg call)) of
           Inl e \<Rightarrow> ([], Inl e)
         | Inr rs \<Rightarrow>
           if rs = UNRESTRICTED then
             (let dims = buffer_dimensions call in
              if length dims \<noteq> 2 then ([], Inl (Invalid_number_of_dimensions (length dims)))
              else
                (let nof_samples = to_unsigned (dims ! 0);
                     nof_symbols = to_unsigned (dims ! 1)
                 in
                 case create_buffer lib dims nof_samples nof_symbols of
                   Inl e \<Rightarrow> ([Print_dimensions dims], Inl e)
                 | Inr buffer \<Rightarrow>
                   (case fill_and_detect lib call nof_samples nof_symbols buffer of
                      (events, r) \<Rightarrow> (Print_dimensions dims # events, r))))
           else ([Print_skipping], Inr None)))"

text \<open>
  A small instance of the library interface and a family of calls, for concrete
  evaluations: sequence lengths 4 and 2, a long buffer with as many symbols as asked
  for, a short buffer of \<open>short_symbols\<close> symbols whatever it is asked for, and a detector
  that reports two preambles when the first sample of the buffer is not zero and none
  when it is.
\<close>

definition example_prach_library :: "nat \<Rightarrow> prach_library" where
  "example_prach_library short_symbols =
     \<lparr>LONG_SEQUENCE_LENGTH = 4,
      SHORT_SEQUENCE_LENGTH = 2,
      create_prach_buffer_long = (\<lambda>n. Some (replicate n [0, 0, 0, 0])),
      create_prach_buffer_short = (\<lambda>td fd. Some (replicate short_symbols [0, 0])),
      detect = (\<lambda>buffer cfg.
        \<lparr>rssi_dB = 1,
         time_resolution = Phy_time_unit 2,
         time_advance_max = Phy_time_unit 3,
         preambles =
           (if take 1 (concat buffer) = [0] then []
            else [\<lparr>preamble_index = 5, time_advance = Phy_time_unit 6, power_dB = 7,
                     snr_dB = 8\<rparr>,
                  \<lparr>preamble_index = root_sequence_index cfg, time_advance = Phy_time_unit 10,
                     power_dB = 11, snr_dB = 12\<rparr>])\<rparr>)\<rparr>"

definition example_prach_call :: "string \<Rightarrow> nat list \<Rightarrow> complex \<Rightarrow> prach_call" where
  "example_prach_call set_name dims first_sample =
     \<lparr>inputs_size = 3,
      prach_symbols_type = COMPLEX_DOUBLE,
      config_type = STRUCT,
      config_number_of_elements = 1,
      outputs_size = 1,
      buffer_dimensions = dims,
      in_cft_array = (\<lambda>i j. if i = 0 \<and> j = 0 then first_sample else 1),
      in_det_cfg =
        \<lparr>cfg_restricted_set = set_name,
         cfg_root_sequence_index = 9,
         cfg_format = ''0'',
         cfg_zero_correlation_zone = 1\<rparr>\<rparr>"

section \<open>Multiport channel estimator: \<^verbatim>\<open>multiport_channel_estimator_mex.cpp\<close>\<close>

subsection \<open>Host arrays\<close>

text \<open>
  A host array: its class, its dimensions and its elements in storage order, which is
  what \<^verbatim>\<open>to_span\<close> views. The number of elements is the product of the dimensions.
\<close>

record 'a mx_array =
  getType :: ArrayType
  getDimensions :: "nat list"
  elements :: "'a list"

definition getNumberOfElements :: "'a mx_array \<Rightarrow> nat" where
  "getNumberOfElements a = prod_list (getDimensions a)"

text \<open>The host creates arrays with at least two dimensions and all their elements.\<close>

definition host_array :: "'a mx_array \<Rightarrow> bool" where
  "host_array a \<longleftrightarrow> 2 \<le> length (getDimensions a) \<and> length (elements a) = getNumberOfElements a"

subsection \<open>Types of the PHY library\<close>

datatype cyclic_prefix = NORMAL | EXTENDED

datatype subcarrier_spacing = kHz15 | kHz30 | kHz60 | kHz120 | kHz240

text \<open>
  Modelled from the spec: the constant \<^verbatim>\<open>NRE\<close> of the PHY library, the number of resource
  elements of a resource block, is not in the MEX sources; the specification gives a
  resource block 12 subcarriers.
\<close>

definition NRE :: nat where
  "NRE = 12"

text \<open>
  A \<^verbatim>\<open>bounded_bitset<N>\<close> is the list of its bits; building one from more than \<open>N\<close> bits
  fails. \<^verbatim>\<open>size()\<close> is the length of the list, \<^verbatim>\<open>count()\<close> the number of bits set.
\<close>

definition bounded_bitset :: "nat \<Rightarrow> bool list \<Rightarrow> mex_error + bool list" where
  "bounded_bitset N bits =
     (if length bits \<le> N then Inr bits else Inl (Bitset_capacity_exceeded (length bits) N))"

definition bitset_count :: "bool list \<Rightarrow> nat" where
  "bitset_count bits = length (filter (\<lambda>b. b) bits)"

text \<open>
  The structures of the library keep the names of their fields, but for three that
  several of them share: \<open>nof_symbols\<close> is \<open>cfg_nof_symbols\<close> in the configuration of the
  estimator, \<open>re_nof_symbols\<close> in the dimensions of the pilots and \<open>ce_nof_symbols\<close> in the
  dimensions of the estimate, where \<open>nof_rx_ports\<close> is \<open>ce_nof_rx_ports\<close>.
\<close>

record layer_dmrs_pattern =
  symbols :: "bool list"
  rb_mask :: "bool list"
  rb_mask2 :: "bool list"
  hopping_symbol_index :: "nat option"
  re_pattern :: "bool list"

record estimator_configuration =
  scs :: subcarrier_spacing
  cp :: cyclic_prefix
  first_symbol :: nat
  cfg_nof_symbols :: nat
  dmrs_pattern :: "layer_dmrs_pattern list"
  rx_ports :: "nat list"
  scaling :: real

record re_measurement_dimensions =
  nof_subc :: nat
  re_nof_symbols :: nat
  nof_slices :: nat

record channel_estimate_dimensions =
  nof_prb :: nat
  ce_nof_symbols :: nat
  ce_nof_rx_ports :: nat
  nof_tx_layers :: nat

text \<open>
  A \<^verbatim>\<open>dmrs_symbol_list\<close>: its dimensions and its slices. A slice holds
  \<open>nof_subc \<times> nof_symbols\<close> symbols; \<^verbatim>\<open>set_slice\<close> copies a view of that size into
  the slice of a given index.
\<close>

record dmrs_symbol_list =
  pilot_dims :: re_measurement_dimensions
  slices :: "cf_t list list"

definition new_dmrs_symbol_list :: "re_measurement_dimensions \<Rightarrow> dmrs_symbol_list" where
  "new_dmrs_symbol_list d =
     \<lparr>pilot_dims = d,
      slices = replicate (nof_slices d) (replicate (nof_subc d * re_nof_symbols d) 0)\<rparr>"

definition set_slice :: "dmrs_symbol_list \<Rightarrow> cf_t list \<Rightarrow> nat \<Rightarrow> mex_error + dmrs_symbol_list" where
  "set_slice pilots view i_slice =
     (if i_slice < nof_slices (pilot_dims pilots)
         \<and> length view = nof_subc (pilot_dims pilots) * re_nof_symbols (pilot_dims pilots)
      then Inr (pilots\<lparr>slices := (slices pilots)[i_slice := view]\<rparr>)
      else Inl (Slice_out_of_range i_slice))"

text \<open>\<^verbatim>\<open>span::first\<close> and \<^verbatim>\<open>span::last\<close>.\<close>

definition span_first :: "'a list \<Rightarrow> nat \<Rightarrow> mex_error + 'a list" where
  "span_first view n =
     (if n \<le> length view then Inr (take n view) else Inl (Span_out_of_range n (length view)))"

definition span_last :: "'a list \<Rightarrow> nat \<Rightarrow> mex_error + 'a list" where
  "span_last view n =
     (if n \<le> length view then Inr (drop (length view - n) view)
      else Inl (Span_out_of_range n (length view)))"

text \<open>
  What the MEX function takes from the PHY library and from headers that are not part of
  the MEX sources. The resource grid \<open>'g\<close> and the channel estimate \<open>'e\<close> are the library's
  own; the MEX function only hands them on.
  \<^item> \<open>MAX_RB\<close>, \<open>MAX_NSYMB_PER_SLOT\<close>: the capacities of the bit sets;
  \<^item> the two conversions of \<^verbatim>\<open>matlab_to_srs.h\<close> this file calls and the header lacks;
  \<^item> \<open>create_resource_grid\<close> (\<open>None\<close> is a null pointer) and \<open>put\<close>, which is
    \<^verbatim>\<open>grid->get_writer().put(port, symbol, k_init, view)\<close>;
  \<^item> \<open>channel_estimate\<close>, the constructor from the dimensions; \<open>compute\<close>, which is
    \<^verbatim>\<open>estimator->compute(ch_estimate, grid->get_reader(), port, pilots, cfg)\<close> and returns
    the estimate it has written; and the getters of the estimate.
\<close>

record ('g, 'e) estimator_library =
  MAX_RB :: nat
  MAX_NSYMB_PER_SLOT :: nat
  matlab_to_srs_cyclic_prefix :: "string \<Rightarrow> mex_error + cyclic_prefix"
  matlab_to_srs_subcarrier_spacing :: "nat \<Rightarrow> mex_error + subcarrier_spacing"
  create_resource_grid :: "nat \<Rightarrow> nat \<Rightarrow> nat \<Rightarrow> 'g option"
  put :: "'g \<Rightarrow> nat \<Rightarrow> nat \<Rightarrow> nat \<Rightarrow> cf_t list \<Rightarrow> 'g"
  channel_estimate :: "channel_estimate_dimensions \<Rightarrow> 'e"
  compute :: "'e \<Rightarrow> 'g \<Rightarrow> nat \<Rightarrow> dmrs_symbol_list \<Rightarrow> estimator_configuration \<Rightarrow> 'e"
  get_path_ch_estimate :: "'e \<Rightarrow> nat \<Rightarrow> cf_t list"
  get_noise_variance :: "'e \<Rightarrow> nat \<Rightarrow> real"
  get_rsrp :: "'e \<Rightarrow> nat \<Rightarrow> real"
  get_epre :: "'e \<Rightarrow> nat \<Rightarrow> real"
  get_snr :: "'e \<Rightarrow> nat \<Rightarrow> real"
  get_time_alignment :: "'e \<Rightarrow> nat \<Rightarrow> phy_time_unit"

text \<open>
  The capacities of the bit sets are such that the number of resource elements of a
  symbol and of a slot are values of \<^verbatim>\<open>unsigned\<close>.
\<close>

definition capacities_in_range :: "('g, 'e) estimator_library \<Rightarrow> bool" where
  "capacities_in_range lib \<longleftrightarrow>
     MAX_NSYMB_PER_SLOT lib < 2 ^ 32 \<and> MAX_RB lib * NRE < 2 ^ 32
     \<and> MAX_RB lib * NRE * MAX_NSYMB_PER_SLOT lib < 2 ^ 32"

subsection \<open>The call\<close>

text \<open>
  The fields of the host structure \<^verbatim>\<open>config\<close>. A number the source reads through
  \<^verbatim>\<open>static_cast<unsigned>\<close> is given as the value of the cast.
\<close>

record estimator_config_struct =
  CyclicPrefix :: string
  SubcarrierSpacing :: nat
  Symbols :: "bool list"
  RBMask :: "bool list"
  HoppingIndex :: "nat list"
  RBMask2 :: "bool list"
  REPattern :: "bool list"
  BetaScaling :: real
  PortIndices :: "nat list"

text \<open>
  One call of the \<^verbatim>\<open>step\<close> method: the number of inputs and outputs, the arrays
  \<^verbatim>\<open>inputs[1]\<close> to \<^verbatim>\<open>inputs[3]\<close>, and of \<^verbatim>\<open>inputs[4]\<close> its class, its number of elements
  and the fields of its first element.
\<close>

record estimator_call =
  nof_inputs :: nat
  rxGrid :: "cf_t mx_array"
  symbolAllocation :: "nat mx_array"
  refSym :: "cf_t mx_array"
  config_class :: ArrayType
  config_elements :: nat
  nof_outputs :: nat
  in_cfg :: estimator_config_struct

definition estimator_check_step_outputs_inputs :: "estimator_call \<Rightarrow> mex_error option" where
  "estimator_check_step_outputs_inputs call =
     (if nof_inputs call \<noteq> 5 then Some (Wrong_number_of_inputs 5 (nof_inputs call))
      else if getType (rxGrid call) \<noteq> COMPLEX_SINGLE
           \<or> length (getDimensions (rxGrid call)) < 2
           \<or> length (getDimensions (rxGrid call)) > 3
        then Some RxGrid_not_complex_float_array
      else if getType (symbolAllocation call) \<noteq> DOUBLE
           \<or> getNumberOfElements (symbolAllocation call) \<noteq> 2
        then Some SymbolAllocation_not_two_elements
      else if getType (refSym call) \<noteq> COMPLEX_SINGLE
           \<or> getDimensions (refSym call) ! 0 \<noteq> getNumberOfElements (refSym call)
        then Some RefSym_not_column_array
      else if config_class call \<noteq> STRUCT \<or> config_elements call > 1
        then Some Config_not_scalar_structure
      else if nof_outputs call \<noteq> 2 then Some (Wrong_number_of_outputs 2 (nof_outputs call))
      else None)"

text \<open>Lines 84 to 102: the DM-RS pattern of the one transmit layer.\<close>

definition make_dmrs_pattern ::
  "('g, 'e) estimator_library \<Rightarrow> estimator_config_struct \<Rightarrow> mex_error + layer_dmrs_pattern" where
  "make_dmrs_pattern lib cfg_in =
     (case bounded_bitset (MAX_NSYMB_PER_SLOT lib) (Symbols cfg_in) of
        Inl e \<Rightarrow> Inl e
      | Inr in_symbols \<Rightarrow>
        (case bounded_bitset (MAX_RB lib) (RBMask cfg_in) of
           Inl e \<Rightarrow> Inl e
         | Inr in_rb_mask \<Rightarrow>
           (case (if HoppingIndex cfg_in \<noteq> []
                  then map_sum id (\<lambda>m. (Some (hd (HoppingIndex cfg_in)), m))
                         (bounded_bitset (MAX_RB lib) (RBMask2 cfg_in))
                  else Inr (None, [])) of
              Inl e \<Rightarrow> Inl e
            | Inr (hop, in_rb_mask2) \<Rightarrow>
              (case bounded_bitset NRE (REPattern cfg_in) of
                 Inl e \<Rightarrow> Inl e
               | Inr in_re_pattern \<Rightarrow>
                   Inr \<lparr>symbols = in_symbols, rb_mask = in_rb_mask, rb_mask2 = in_rb_mask2,
                        hopping_symbol_index = hop, re_pattern = in_re_pattern\<rparr>))))"

text \<open>
  Lines 132 to 141: the grid is written symbol by symbol, port by port. The state of the
  loops is the grid, the rest of the view and \<open>remaining_res\<close>, an \<^verbatim>\<open>unsigned\<close>.
\<close>

primrec put_symbols ::
  "('g, 'e) estimator_library \<Rightarrow> nat \<Rightarrow> nat \<Rightarrow> nat list \<Rightarrow> 'g \<times> cf_t list \<times> nat
     \<Rightarrow> mex_error + 'g \<times> cf_t list \<times> nat" where
  "put_symbols lib nof_subcarriers i_port [] st = Inr st"
| "put_symbols lib nof_subcarriers i_port (i_symbol # rest) st =
     (case st of (grid, grid_view, remaining_res) \<Rightarrow>
        (case span_first grid_view nof_subcarriers of
           Inl e \<Rightarrow> Inl e
         | Inr symbol_view \<Rightarrow>
           (let remaining_res' = unsigned_minus remaining_res nof_subcarriers in
            case span_last grid_view remaining_res' of
              Inl e \<Rightarrow> Inl e
            | Inr grid_view' \<Rightarrow>
                put_symbols lib nof_subcarriers i_port rest
                  (put lib grid i_port i_symbol 0 symbol_view, grid_view', remaining_res'))))"

primrec put_ports ::
  "('g, 'e) estimator_library \<Rightarrow> nat \<Rightarrow> nat \<Rightarrow> nat list \<Rightarrow> 'g \<times> cf_t list \<times> nat
     \<Rightarrow> mex_error + 'g \<times> cf_t list \<times> nat" where
  "put_ports lib nof_subcarriers nof_symbols [] st = Inr st"
| "put_ports lib nof_subcarriers nof_symbols (i_port # rest) st =
     (case put_symbols lib nof_subcarriers i_port [0..<nof_symbols] st of
        Inl e \<Rightarrow> Inl e
      | Inr st' \<Rightarrow> put_ports lib nof_subcarriers nof_symbols rest st')"

definition fill_grid ::
  "('g, 'e) estimator_library \<Rightarrow> cf_t mx_array \<Rightarrow> nat \<Rightarrow> nat \<Rightarrow> nat \<Rightarrow> 'g \<Rightarrow> mex_error + 'g" where
  "fill_grid lib in_grid nof_subcarriers nof_symbols nof_rx_ports grid =
     map_sum id fst
       (put_ports lib nof_subcarriers nof_symbols [0..<nof_rx_ports]
          (grid, elements in_grid, to_unsigned (getNumberOfElements in_grid)))"

text \<open>Lines 151 to 160: the same view of the pilots is set as the slice of every port.\<close>

primrec set_slices :: "cf_t list \<Rightarrow> nat list \<Rightarrow> dmrs_symbol_list \<Rightarrow> mex_error + dmrs_symbol_list" where
  "set_slices pilot_view [] pilots = Inr pilots"
| "set_slices pilot_view (i_port # rest) pilots =
     (case set_slice pilots pilot_view i_port of
        Inl e \<Rightarrow> Inl e
      | Inr pilots' \<Rightarrow> set_slices pilot_view rest pilots')"

definition make_pilots :: "cf_t list \<Rightarrow> nat \<Rightarrow> nat \<Rightarrow> nat \<Rightarrow> mex_error + dmrs_symbol_list" where
  "make_pilots pilot_view nof_pilot_res nof_pilot_symbols nof_rx_ports =
     set_slices pilot_view [0..<nof_rx_ports]
       (new_dmrs_symbol_list
          \<lparr>nof_subc = nof_pilot_res, re_nof_symbols = nof_pilot_symbols,
           nof_slices = nof_rx_ports\<rparr>)"

text \<open>
  Lines 169 to 177. \<^verbatim>\<open>std::copy_n\<close> writes a view at the output iterator, here an offset into
  the elements of the output array, and returns the iterator past the copy.
\<close>

definition copy_n :: "cf_t list \<Rightarrow> cf_t list \<Rightarrow> nat \<Rightarrow> mex_error + cf_t list \<times> nat" where
  "copy_n view out iter =
     (if iter + length view \<le> length out
      then Inr (take iter out @ view @ drop (iter + length view) out, iter + length view)
      else Inl (Copy_out_of_range (iter + length view) (length out)))"

primrec estimate_ports ::
  "('g, 'e) estimator_library \<Rightarrow> 'g \<Rightarrow> dmrs_symbol_list \<Rightarrow> estimator_configuration \<Rightarrow> nat list
     \<Rightarrow> 'e \<times> cf_t list \<times> nat \<Rightarrow> mex_error + 'e \<times> cf_t list \<times> nat" where
  "estimate_ports lib grid pilots cfg [] st = Inr st"
| "estimate_ports lib grid pilots cfg (i_port # rest) st =
     (case st of (ch_estimate, ch_est_out, ch_est_out_iter) \<Rightarrow>
        (let ch_estimate' = compute lib ch_estimate grid i_port pilots cfg;
             ch_estimate_view = get_path_ch_estimate lib ch_estimate' i_port
         in
         case copy_n ch_estimate_view ch_est_out ch_est_out_iter of
           Inl e \<Rightarrow> Inl e
         | Inr (ch_est_out', ch_est_out_iter') \<Rightarrow>
             estimate_ports lib grid pilots cfg rest
               (ch_estimate', ch_est_out', ch_est_out_iter')))"

text \<open>
  The views the loop of lines 172 to 177 copies, in the order of the ports: the estimate
  is computed for a port, then its path estimate for that port and the one transmit
  layer is read.
\<close>

primrec path_estimates ::
  "('g, 'e) estimator_library \<Rightarrow> 'g \<Rightarrow> dmrs_symbol_list \<Rightarrow> estimator_configuration \<Rightarrow> nat list
     \<Rightarrow> 'e \<Rightarrow> cf_t list list" where
  "path_estimates lib grid pilots cfg [] ch_estimate = []"
| "path_estimates lib grid pilots cfg (i_port # rest) ch_estimate =
     (let ch_estimate' = compute lib ch_estimate grid i_port pilots cfg in
      get_path_ch_estimate lib ch_estimate' i_port
        # path_estimates lib grid pilots cfg rest ch_estimate')"

text \<open>
  Lines 179 to 205. The loop writes the record of each port and adds up the totals; the
  record after the last port holds the totals divided by the number of ports. With no
  port the totals are zero and the quotient of zero by zero is a NaN.
\<close>

definition port_info :: "('g, 'e) estimator_library \<Rightarrow> 'e \<Rightarrow> nat \<Rightarrow> mx_struct" where
  "port_info lib ch_estimate i_port =
     [(''NoiseVar'', Scalar_double (get_noise_variance lib ch_estimate i_port)),
      (''RSRP'', Scalar_double (get_rsrp lib ch_estimate i_port)),
      (''EPRE'', Scalar_double (get_epre lib ch_estimate i_port)),
      (''SINR'', Scalar_double (get_snr lib ch_estimate i_port)),
      (''TimeAlignment'', Scalar_double (to_seconds (get_time_alignment lib ch_estimate i_port)))]"

record totals =
  total_noise_var :: real
  total_rsrp :: real
  total_epre :: real
  total_time_alignment :: real

primrec port_metrics ::
  "('g, 'e) estimator_library \<Rightarrow> 'e \<Rightarrow> nat list \<Rightarrow> mx_struct list \<Rightarrow> totals
     \<Rightarrow> mx_struct list \<times> totals" where
  "port_metrics lib ch_estimate [] info_out t = (info_out, t)"
| "port_metrics lib ch_estimate (i_port # rest) info_out t =
     port_metrics lib ch_estimate rest
       (info_out[i_port := port_info lib ch_estimate i_port])
       \<lparr>total_noise_var = total_noise_var t + get_noise_variance lib ch_estimate i_port,
        total_rsrp = total_rsrp t + get_rsrp lib ch_estimate i_port,
        total_epre = total_epre t + get_epre lib ch_estimate i_port,
        total_time_alignment =
          total_time_alignment t + to_seconds (get_time_alignment lib ch_estimate i_port)\<rparr>"

definition divide_by_ports :: "real \<Rightarrow> nat \<Rightarrow> mx_scalar" where
  "divide_by_ports total_value nof_rx_ports =
     (if nof_rx_ports = 0 then Scalar_double_NaN
      else Scalar_double (total_value / real nof_rx_ports))"

definition global_info :: "totals \<Rightarrow> nat \<Rightarrow> mx_struct" where
  "global_info t nof_rx_ports =
     [(''NoiseVar'', divide_by_ports (total_noise_var t) nof_rx_ports),
      (''RSRP'', divide_by_ports (total_rsrp t) nof_rx_ports),
      (''EPRE'', divide_by_ports (total_epre t) nof_rx_ports),
      (''SINR'', Scalar_double_NaN),
      (''TimeAlignment'', divide_by_ports (total_time_alignment t) nof_rx_ports)]"

definition make_info_out ::
  "('g, 'e) estimator_library \<Rightarrow> 'e \<Rightarrow> nat \<Rightarrow> mex_error + mx_struct list" where
  "make_info_out lib ch_estimate nof_rx_ports =
     (let info_out = replicate (to_unsigned (nof_rx_ports + 1)) [] in
      if length info_out \<le> nof_rx_ports then Inl (Struct_index_out_of_range (length info_out))
      else
        (case port_metrics lib ch_estimate [0..<nof_rx_ports] info_out
                \<lparr>total_noise_var = 0, total_rsrp = 0, total_epre = 0,
                 total_time_alignment = 0\<rparr> of
           (info_out', t) \<Rightarrow> Inr (info_out'[nof_rx_ports := global_info t nof_rx_ports])))"

text \<open>
  Lines 106 to 113: the dimensions of the grid as \<^verbatim>\<open>method_step\<close> reads them from
  \<^verbatim>\<open>inputs[1]\<close>.
\<close>

definition grid_nof_subcarriers :: "estimator_call \<Rightarrow> nat" where
  "grid_nof_subcarriers call = to_unsigned (getDimensions (rxGrid call) ! 0)"

definition grid_nof_symbols :: "estimator_call \<Rightarrow> nat" where
  "grid_nof_symbols call = to_unsigned (getDimensions (rxGrid call) ! 1)"

definition grid_nof_rx_ports :: "estimator_call \<Rightarrow> nat" where
  "grid_nof_rx_ports call =
     (if length (getDimensions (rxGrid call)) = 3
      then to_unsigned (getDimensions (rxGrid call) ! 2) else 1)"

text \<open>
  Lines 162 to 208: the estimation proper, given the grid, the pilots and the
  configuration built before.
\<close>

definition run_estimator ::
  "('g, 'e) estimator_library \<Rightarrow> nat \<Rightarrow> 'g \<Rightarrow> layer_dmrs_pattern \<Rightarrow> estimator_configuration
     \<Rightarrow> dmrs_symbol_list \<Rightarrow> mex_error + cf_t mx_array \<times> mx_struct list" where
  "run_estimator lib nof_rx_ports grid pattern cfg pilots =
     (let ch_est_dims =
            \<lparr>nof_prb = to_unsigned (length (rb_mask pattern)),
             ce_nof_symbols = to_unsigned (length (symbols pattern)),
             ce_nof_rx_ports = nof_rx_ports,
             nof_tx_layers = 1\<rparr>;
          out_dims =
            [to_unsigned (nof_prb ch_est_dims * NRE), ce_nof_symbols ch_est_dims, nof_rx_ports]
      in
      case estimate_ports lib grid pilots cfg [0..<nof_rx_ports]
             (channel_estimate lib ch_est_dims, replicate (prod_list out_dims) 0, 0) of
        Inl e \<Rightarrow> Inl e
      | Inr (ch_estimate, ch_est_out, ch_est_out_iter) \<Rightarrow>
        (case make_info_out lib ch_estimate nof_rx_ports of
           Inl e \<Rightarrow> Inl e
         | Inr info_out \<Rightarrow>
             Inr (\<lparr>getType = COMPLEX_SINGLE, getDimensions = out_dims, elements = ch_est_out\<rparr>,
                  info_out)))"

text \<open>Lines 143 to 160: the check of the pilots, and the pilots of every port.\<close>

definition expected_pilots :: "layer_dmrs_pattern \<Rightarrow> nat \<times> nat \<times> nat" where
  "expected_pilots pattern =
     (let nof_pilot_res =
            to_unsigned (bitset_count (rb_mask pattern) * bitset_count (re_pattern pattern));
          nof_pilot_symbols = to_unsigned (bitset_count (symbols pattern))
      in (nof_pilot_res, nof_pilot_symbols, to_unsigned (nof_pilot_res * nof_pilot_symbols)))"

definition estimate_and_report ::
  "('g, 'e) estimator_library \<Rightarrow> estimator_call \<Rightarrow> 'g \<Rightarrow> layer_dmrs_pattern
     \<Rightarrow> estimator_configuration \<Rightarrow> mex_error + cf_t mx_array \<times> mx_struct list" where
  "estimate_and_report lib call grid pattern cfg =
     (let nof_rx_ports = grid_nof_rx_ports call;
          in_pilots = refSym call
      in
      case expected_pilots pattern of
        (nof_pilot_res, nof_pilot_symbols, expected) \<Rightarrow>
          if getNumberOfElements in_pilots \<noteq> expected
          then Inl (Unexpected_number_of_dmrs_symbols expected (getNumberOfElements in_pilots))
          else
            (case make_pilots (elements in_pilots) nof_pilot_res nof_pilot_symbols nof_rx_ports of
               Inl e \<Rightarrow> Inl e
             | Inr pilots \<Rightarrow> run_estimator lib nof_rx_ports grid pattern cfg pilots))"

text \<open>
  The configuration handed to the estimator, as lines 73 to 104 and 125 to 128 fill it:
  one transmit layer, and the port indices of the host structure.
\<close>

definition make_configuration ::
  "estimator_call \<Rightarrow> cyclic_prefix \<Rightarrow> subcarrier_spacing \<Rightarrow> layer_dmrs_pattern
     \<Rightarrow> estimator_configuration" where
  "make_configuration call in_cp in_scs pattern =
     \<lparr>scs = in_scs,
      cp = in_cp,
      first_symbol = elements (symbolAllocation call) ! 0,
      cfg_nof_symbols = elements (symbolAllocation call) ! 1,
      dmrs_pattern = [pattern],
      rx_ports = map (\<lambda>i_port. PortIndices (in_cfg call) ! i_port) [0..<grid_nof_rx_ports call],
      scaling = BetaScaling (in_cfg call)\<rparr>"

text \<open>
  \<^verbatim>\<open>MexFunction::method_step\<close>. The result is the error that ended the call or the pair
  of \<^verbatim>\<open>outputs[0]\<close>, the channel estimate, and \<^verbatim>\<open>outputs[1]\<close>, the records of metrics.
\<close>

definition estimator_method_step ::
  "('g, 'e) estimator_library \<Rightarrow> estimator_call
     \<Rightarrow> mex_error + cf_t mx_array \<times> mx_struct list" where
  "estimator_method_step lib call =
     (case estimator_check_step_outputs_inputs call of
        Some e \<Rightarrow> Inl e
      | None \<Rightarrow>
        (case matlab_to_srs_cyclic_prefix lib (CyclicPrefix (in_cfg call)) of
           Inl e \<Rightarrow> Inl e
         | Inr in_cp \<Rightarrow>
           (case matlab_to_srs_subcarrier_spacing lib (SubcarrierSpacing (in_cfg call)) of
              Inl e \<Rightarrow> Inl e
            | Inr in_scs \<Rightarrow>
              (case make_dmrs_pattern lib (in_cfg call) of
                 Inl e \<Rightarrow> Inl e
               | Inr pattern \<Rightarrow>
                 (let nof_subcarriers = grid_nof_subcarriers call;
                      nof_symbols = grid_nof_symbols call;
                      nof_rx_ports = grid_nof_rx_ports call
                  in
                  case create_resource_grid lib nof_subcarriers nof_symbols nof_rx_ports of
                    None \<Rightarrow> Inl Cannot_create_resource_grid
                  | Some grid \<Rightarrow>
                    (let in_port_indices = PortIndices (in_cfg call);
                         nof_port_indices = to_unsigned (length in_port_indices)
                     in
                     if nof_port_indices \<noteq> nof_rx_ports
                     then Inl (Port_indices_mismatch nof_port_indices nof_rx_ports)
                     else
                       (case fill_grid lib (rxGrid call) nof_subcarriers nof_symbols
                               nof_rx_ports grid of
                          Inl e \<Rightarrow> Inl e
                        | Inr grid' \<Rightarrow>
                            estimate_and_report lib call grid' pattern
                              (make_configuration call in_cp in_scs pattern))))))))"

text \<open>
  A small instance of the library interface and a call, for concrete evaluations. The
  call has a grid of ones, one DM-RS symbol and two DM-RS resource elements in a
  resource block. In the library the grid is the list of the writes made to it, the
  estimate the dimensions it was made with and the list of the ports computed, each
  with the slice of the pilots the estimator was given for it; the path estimate of a
  port repeats the number of the port, the EPRE of a port is one more than the real part
  of the sum of the pilots the estimator was given for it, and the other metrics of a
  port are simple functions of its number.
\<close>

definition example_estimator_library ::
  "((nat \<times> nat \<times> cf_t list) list, channel_estimate_dimensions \<times> (nat \<times> cf_t list) list)
     estimator_library" where
  "example_estimator_library =
     \<lparr>MAX_RB = 275,
      MAX_NSYMB_PER_SLOT = 14,
      matlab_to_srs_cyclic_prefix =
        (\<lambda>s. if s = ''normal'' then Inr NORMAL
             else if s = ''extended'' then Inr EXTENDED
             else Inl (Unknown_cyclic_prefix s)),
      matlab_to_srs_subcarrier_spacing =
        (\<lambda>n. if n = 15 then Inr kHz15
             else if n = 30 then Inr kHz30
             else Inl (Unknown_subcarrier_spacing n)),
      create_resource_grid = (\<lambda>nof_subc nof_symb nof_ports. Some []),
      put = (\<lambda>grid port l k view. grid @ [(port, l, view)]),
      channel_estimate = (\<lambda>d. (d, [])),
      compute = (\<lambda>e grid port pilots cfg. (fst e, snd e @ [(port, slices pilots ! port)])),
      get_path_ch_estimate =
        (\<lambda>e port. replicate (nof_prb (fst e) * 12 * ce_nof_symbols (fst e)) (of_nat port)),
      get_noise_variance = (\<lambda>e port. real port + 1),
      get_rsrp = (\<lambda>e port. 4 * real port + 2),
      get_epre =
        (\<lambda>e port. 1 + Re (sum_list (concat (map snd (filter (\<lambda>c. fst c = port) (snd e)))))),
      get_snr = (\<lambda>e port. 10),
      get_time_alignment = (\<lambda>e port. Phy_time_unit (real port))\<rparr>"

definition example_estimator_call ::
  "nat list \<Rightarrow> bool list \<Rightarrow> nat list \<Rightarrow> cf_t list \<Rightarrow> estimator_call" where
  "example_estimator_call grid_dims rb_mask_bits port_indices pilots =
     \<lparr>nof_inputs = 5,
      rxGrid =
        \<lparr>getType = COMPLEX_SINGLE, getDimensions = grid_dims,
         elements = replicate (prod_list grid_dims) 1\<rparr>,
      symbolAllocation = \<lparr>getType = DOUBLE, getDimensions = [1, 2], elements = [0, 1]\<rparr>,
      refSym =
        \<lparr>getType = COMPLEX_SINGLE, getDimensions = [length pilots, 1], elements = pilots\<rparr>,
      config_class = STRUCT,
      config_elements = 1,
      nof_outputs = 2,
      in_cfg =
        \<lparr>CyclicPrefix = ''normal'',
         SubcarrierSpacing = 15,
         Symbols = [True],
         RBMask = rb_mask_bits,
         HoppingIndex = [],
         RBMask2 = [],
         REPattern = [True, False, True, False, False, False, False, False, False, False,
                      False, False],
         BetaScaling = 1,
         PortIndices = port_indices\<rparr>\<rparr>"

section \<open>Theorems\<close>

subsection \<open>Tag conversions\<close>

lemma modulation_unknown_iff:
  "matlab_to_srs_modulation s = Inl (Unknown_modulation s) \<longleftrightarrow> s \<notin> set modulation_names"
  by (simp add: matlab_to_srs_modulation_def modulation_names_def)

lemma restricted_set_unknown_iff:
  "matlab_to_srs_restricted_set s = Inl (Unknown_restricted_set s)
     \<longleftrightarrow> s \<notin> set restricted_set_names"
  by (simp add: matlab_to_srs_restricted_set_def restricted_set_names_def)

lemma preamble_format_other_iff:
  "matlab_to_srs_preamble_format s = OTHER \<longleftrightarrow> s \<notin> set preamble_format_digits"
  by (simp add: matlab_to_srs_preamble_format_def preamble_format_digits_def)

subsection \<open>Claim about the tag conversions\<close>

text \<open>
  Claim C7, as the code has it. A modulation name or a restricted set name outside the
  names the conversion knows ends the call with the "Unknown ..." error and yields no
  value of the enumeration, and each known name yields its value. The preamble format
  conversion never fails: the digits 0 to 3 yield the four formats \<open>FORMAT0\<close> to
  \<open>FORMAT3\<close>, in this order, and every other string yields \<open>OTHER\<close>.
\<close>

theorem tag_conversions:
  "(matlab_to_srs_modulation s = Inl (Unknown_modulation s) \<longleftrightarrow> s \<notin> set modulation_names)
   \<and> (isl (matlab_to_srs_modulation s) \<longleftrightarrow> s \<notin> set modulation_names)
   \<and> map matlab_to_srs_modulation modulation_names
       = [Inr BPSK, Inr BPSK, Inr QPSK, Inr QAM16, Inr QAM16, Inr QAM64, Inr QAM64,
          Inr QAM256, Inr QAM256]
   \<and> (matlab_to_srs_restricted_set s = Inl (Unknown_restricted_set s)
        \<longleftrightarrow> s \<notin> set restricted_set_names)
   \<and> (isl (matlab_to_srs_restricted_set s) \<longleftrightarrow> s \<notin> set restricted_set_names)
   \<and> map matlab_to_srs_restricted_set restricted_set_names
       = [Inr UNRESTRICTED, Inr TYPE_A, Inr TYPE_B]
   \<and> matlab_to_srs_preamble_format ''0'' = FORMAT0
   \<and> matlab_to_srs_preamble_format ''1'' = FORMAT1
   \<and> matlab_to_srs_preamble_format ''2'' = FORMAT2
   \<and> matlab_to_srs_preamble_format ''3'' = FORMAT3
   \<and> (matlab_to_srs_preamble_format s = OTHER \<longleftrightarrow> s \<notin> set preamble_format_digits)
   \<and> preamble_format_digits = [''0'', ''1'', ''2'', ''3'']"
proof -
  have "isl (matlab_to_srs_modulation s) \<longleftrightarrow> s \<notin> set modulation_names"
    by (simp add: matlab_to_srs_modulation_def modulation_names_def)
  moreover have "isl (matlab_to_srs_restricted_set s) \<longleftrightarrow> s \<notin> set restricted_set_names"
    by (simp add: matlab_to_srs_restricted_set_def restricted_set_names_def)
  moreover have "map matlab_to_srs_modulation modulation_names
       = [Inr BPSK, Inr BPSK, Inr QPSK, Inr QAM16, Inr QAM16, Inr QAM64, Inr QAM64,
          Inr QAM256, Inr QAM256]"
    by (simp add: matlab_to_srs_modulation_def modulation_names_def)
  moreover have "map matlab_to_srs_restricted_set restricted_set_names
       = [Inr UNRESTRICTED, Inr TYPE_A, Inr TYPE_B]"
    by (simp add: matlab_to_srs_restricted_set_def restricted_set_names_def)
  moreover have "matlab_to_srs_preamble_format ''0'' = FORMAT0"
    "matlab_to_srs_preamble_format ''1'' = FORMAT1"
    "matlab_to_srs_preamble_format ''2'' = FORMAT2"
    "matlab_to_srs_preamble_format ''3'' = FORMAT3"
    by (simp_all add: matlab_to_srs_preamble_format_def)
  ultimately show ?thesis
    using modulation_unknown_iff [of s] restricted_set_unknown_iff [of s]
      preamble_format_other_iff [of s]
    by (simp add: preamble_format_digits_def)
qed

theorem tag_conversions_witness:
  "matlab_to_srs_modulation ''QAM1024'' = Inl (Unknown_modulation ''QAM1024'')
   \<and> matlab_to_srs_modulation ''16QAM'' = Inr QAM16
   \<and> matlab_to_srs_restricted_set ''RestrictedSetTypeC'' = Inl (Unknown_restricted_set ''RestrictedSetTypeC'')
   \<and> matlab_to_srs_restricted_set ''RestrictedSetTypeA'' = Inr TYPE_A
   \<and> matlab_to_srs_preamble_format ''0'' = FORMAT0
   \<and> matlab_to_srs_preamble_format ''1'' = FORMAT1
   \<and> matlab_to_srs_preamble_format ''2'' = FORMAT2
   \<and> matlab_to_srs_preamble_format ''3'' = FORMAT3
   \<and> matlab_to_srs_preamble_format ''A1'' = OTHER"
proof -
  note known = tag_conversions [of "''16QAM''"]
  from known have "map matlab_to_srs_modulation modulation_names ! 4 = Inr QAM16"
    by (simp only: nth_Cons_numeral nth_Cons_Suc nth_Cons_0 pred_numeral_simps
          BitM.simps numeral_eq_Suc Num.pred_numeral_simps)
  then have a: "matlab_to_srs_modulation ''16QAM'' = Inr QAM16"
    by (simp add: modulation_names_def)
  from known have "map matlab_to_srs_restricted_set restricted_set_names ! 1 = Inr TYPE_A"
    by simp
  then have b: "matlab_to_srs_restricted_set ''RestrictedSetTypeA'' = Inr TYPE_A"
    by (simp add: restricted_set_names_def)
  from known have c: "matlab_to_srs_preamble_format ''0'' = FORMAT0"
    "matlab_to_srs_preamble_format ''1'' = FORMAT1"
    "matlab_to_srs_preamble_format ''2'' = FORMAT2"
    "matlab_to_srs_preamble_format ''3'' = FORMAT3"
    by blast+
  from tag_conversions [of "''QAM1024''"]
  have "matlab_to_srs_modulation ''QAM1024'' = Inl (Unknown_modulation ''QAM1024'')
          \<longleftrightarrow> ''QAM1024'' \<notin> set modulation_names"
    by blast
  then have d: "matlab_to_srs_modulation ''QAM1024'' = Inl (Unknown_modulation ''QAM1024'')"
    by (simp add: modulation_names_def)
  from tag_conversions [of "''RestrictedSetTypeC''"]
  have "matlab_to_srs_restricted_set ''RestrictedSetTypeC''
            = Inl (Unknown_restricted_set ''RestrictedSetTypeC'')
          \<longleftrightarrow> ''RestrictedSetTypeC'' \<notin> set restricted_set_names"
    by blast
  then have e: "matlab_to_srs_restricted_set ''RestrictedSetTypeC''
            = Inl (Unknown_restricted_set ''RestrictedSetTypeC'')"
    by (simp add: restricted_set_names_def)
  from tag_conversions [of "''A1''"]
  have "matlab_to_srs_preamble_format ''A1'' = OTHER
          \<longleftrightarrow> ''A1'' \<notin> set preamble_format_digits"
    by blast
  then have f: "matlab_to_srs_preamble_format ''A1'' = OTHER"
    by (simp add: preamble_format_digits_def)
  from a b c d e f show ?thesis
    by blast
qed

text \<open>
  Claim C7 as it is written fails for the preamble format: the string \<open>7\<close> is none of
  the digits the conversion knows, and it is mapped to a value of the enumeration.
\<close>

theorem unknown_preamble_format_is_mapped:
  "''7'' \<notin> set preamble_format_digits \<and> matlab_to_srs_preamble_format ''7'' = OTHER"
  by (simp add: preamble_format_digits_def matlab_to_srs_preamble_format_def)

subsection \<open>Conversions to \<^verbatim>\<open>unsigned\<close>\<close>

lemma to_unsigned_id: "n < 2 ^ 32 \<Longrightarrow> to_unsigned n = n"
  by (simp add: to_unsigned_def)

lemma to_unsigned_less: "to_unsigned n < 2 ^ 32"
  by (simp add: to_unsigned_def)

lemma to_unsigned_zero: "to_unsigned 0 = 0"
  by (simp add: to_unsigned_def)

lemma to_unsigned_le: "to_unsigned n \<le> n"
  by (simp add: to_unsigned_def)

subsection \<open>The PRACH step, branch by branch\<close>

lemma prach_step_restricted:
  assumes "prach_check_step_outputs_inputs call = None"
    and "matlab_to_srs_restricted_set (cfg_restricted_set (in_det_cfg call)) = Inr rs"
    and "rs \<noteq> UNRESTRICTED"
  shows "prach_method_step lib call = ([Print_skipping], Inr None)"
  using assms by (simp add: prach_method_step_def)

lemma prach_step_unrestricted:
  assumes "prach_check_step_outputs_inputs call = None"
    and "matlab_to_srs_restricted_set (cfg_restricted_set (in_det_cfg call)) = Inr UNRESTRICTED"
    and "buffer_dimensions call = [d0, d1]"
  shows "prach_method_step lib call =
     (case create_buffer lib [d0, d1] (to_unsigned d0) (to_unsigned d1) of
        Inl e \<Rightarrow> ([Print_dimensions [d0, d1]], Inl e)
      | Inr buffer \<Rightarrow>
          (case fill_and_detect lib call (to_unsigned d0) (to_unsigned d1) buffer of
             (events, r) \<Rightarrow> (Print_dimensions [d0, d1] # events, r)))"
  using assms by (simp add: prach_method_step_def Let_def)

lemma fill_and_detect_filled:
  assumes "fill_buffer (buffer_dimensions call) (in_cft_array call) ns nsym buffer
             = (events, Inr filled)"
  shows "fill_and_detect lib call ns nsym buffer =
     (events @ [Detect filled (detector_config_of (in_det_cfg call))],
      map_sum id Some
        (detected_preamble_indication (detect lib filled (detector_config_of (in_det_cfg call)))))"
  using assms by (simp add: fill_and_detect_def Let_def)

lemma fill_and_detect_fault:
  assumes "fill_buffer (buffer_dimensions call) (in_cft_array call) ns nsym buffer
             = (events, Inl e)"
  shows "fill_and_detect lib call ns nsym buffer = (events, Inl e)"
  using assms by (simp add: fill_and_detect_def Let_def)

subsection \<open>The fill loops\<close>

lemma host_read_Inr:
  "host_read dims arr i j = Inr z \<longleftrightarrow>
     length dims = 2 \<and> i < dims ! 0 \<and> j < dims ! 1 \<and> z = arr i j"
  by (auto simp: host_read_def)

lemma host_read_in_range:
  "i < d0 \<Longrightarrow> j < d1 \<Longrightarrow> host_read [d0, d1] arr i j = Inr (arr i j)"
  by (simp add: host_read_def)

lemma fill_samples_ok:
  "\<forall>i \<in> set idx. i < length v \<and> (\<exists>z. row i = Inr z) \<Longrightarrow>
     \<exists>v'. fill_samples row idx v = Inr v' \<and> length v' = length v"
proof (induction idx arbitrary: v)
  case Nil
  then show ?case by simp
next
  case (Cons i idx)
  from Cons.prems obtain z where z: "row i = Inr z" and i: "i < length v"
    by auto
  have "\<forall>k \<in> set idx. k < length (v[i := cf_t z]) \<and> (\<exists>z. row k = Inr z)"
    using Cons.prems by simp
  from Cons.IH [OF this] show ?case
    using z i by simp
qed

lemma fill_samples_upt_ok:
  assumes "n \<le> length v" and "\<forall>j < n. \<exists>z. row j = Inr z"
  shows "\<exists>v'. fill_samples row [0..<n] v = Inr v' \<and> length v' = length v"
  using assms by (intro fill_samples_ok) auto

lemma fill_samples_length:
  "fill_samples row idx v = Inr v' \<Longrightarrow> length v' = length v"
  by (induction idx arbitrary: v) (auto split: if_splits sum.splits)

text \<open>A run of the inner loop that ends without error read every sample it asked for.\<close>

lemma fill_samples_Inr_reads:
  "fill_samples row idx v = Inr v' \<Longrightarrow> \<forall>i \<in> set idx. \<exists>z. row i = Inr z"
  by (induction idx arbitrary: v) (auto split: if_splits sum.splits)

lemma fill_symbols_events:
  "fill_symbols dims arr ns idx buf = (events, Inr filled) \<Longrightarrow> events = map Print_i_symbol idx"
  by (induction idx arbitrary: buf events) (auto split: if_splits sum.splits prod.splits)

lemma fill_symbols_no_detect:
  "fill_symbols dims arr ns idx buf = (events, r) \<Longrightarrow> Detect b c \<notin> set events"
proof (induction idx arbitrary: buf events)
  case Nil
  then show ?case by simp
next
  case (Cons i idx)
  then show ?case
    by (fastforce split: if_splits sum.splits prod.splits)
qed

text \<open>
  A run of the outer loop that stays in the buffer and in the host array keeps the shape
  of the buffer.
\<close>

lemma fill_symbols_ok:
  assumes "\<forall>i \<in> set idx. i < length buf \<and> ns \<le> length (buf ! i) \<and> i < d0"
    and "ns \<le> d1"
  shows "\<exists>filled. fill_symbols [d0, d1] arr ns idx buf = (map Print_i_symbol idx, Inr filled)
           \<and> length filled = length buf
           \<and> (\<forall>i < length buf. length (filled ! i) = length (buf ! i))"
  using assms(1)
proof (induction idx arbitrary: buf)
  case Nil
  then show ?case by simp
next
  case (Cons i idx)
  from Cons.prems have i: "i < length buf" "ns \<le> length (buf ! i)" "i < d0" by simp_all
  have "\<forall>j < ns. \<exists>z. host_read [d0, d1] arr i j = Inr z"
    using i(3) assms(2) by (simp add: host_read_in_range)
  from fill_samples_upt_ok [OF i(2) this] obtain v
    where v: "fill_samples (host_read [d0, d1] arr i) [0..<ns] (buf ! i) = Inr v"
      "length v = length (buf ! i)"
    by blast
  let ?buf = "buf[i := v]"
  have len: "\<forall>k < length buf. length (?buf ! k) = length (buf ! k)"
    using v(2) i(1) by (auto simp: nth_list_update)
  have "\<forall>k \<in> set idx. k < length ?buf \<and> ns \<le> length (?buf ! k) \<and> k < d0"
    using Cons.prems len by simp
  from Cons.IH [OF this] obtain filled
    where f: "fill_symbols [d0, d1] arr ns idx ?buf = (map Print_i_symbol idx, Inr filled)"
      "length filled = length ?buf"
      "\<forall>k < length ?buf. length (filled ! k) = length (?buf ! k)"
    by blast
  show ?case
    using i v f len by simp
qed

text \<open>The first symbol index outside the buffer stops the loop.\<close>

lemma fill_symbols_append:
  "fill_symbols dims arr ns (xs @ ys) buf =
     (case fill_symbols dims arr ns xs buf of
        (events, Inl e) \<Rightarrow> (events, Inl e)
      | (events, Inr b) \<Rightarrow>
          (case fill_symbols dims arr ns ys b of (events', r) \<Rightarrow> (events @ events', r)))"
  by (induction xs arbitrary: buf) (auto split: sum.splits prod.splits)

text \<open>
  When the host array has a row for every symbol of the buffer and a column for every
  sample, and more symbols are asked for than the buffer has, every symbol of the buffer
  is filled and the next request for a symbol leaves the buffer.
\<close>

lemma fill_buffer_overrun:
  assumes "\<forall>i < length buf. ns \<le> length (buf ! i)"
    and "length buf \<le> d0" and "ns \<le> d1" and "length buf < nsym"
  shows "fill_buffer [d0, d1] arr ns nsym buf =
     (map Print_i_symbol [0..<Suc (length buf)], Inl (Symbol_index_out_of_range (length buf)))"
proof -
  have "\<forall>i \<in> set [0..<length buf]. i < length buf \<and> ns \<le> length (buf ! i) \<and> i < d0"
    using assms(1,2) by simp
  from fill_symbols_ok [OF this assms(3)] obtain filled
    where f: "fill_symbols [d0, d1] arr ns [0..<length buf] buf
                = (map Print_i_symbol [0..<length buf], Inr filled)"
      "length filled = length buf"
    by blast
  have split: "[0..<nsym] = [0..<length buf] @ (length buf # [Suc (length buf)..<nsym])"
    using assms(4) by (metis less_imp_add_positive upt_add_eq_append upt_conv_Cons zero_le
        add.left_neutral less_add_same_cancel1)
  have "fill_symbols [d0, d1] arr ns
          ([0..<length buf] @ (length buf # [Suc (length buf)..<nsym])) buf =
     (map Print_i_symbol [0..<length buf] @ [Print_i_symbol (length buf)],
      Inl (Symbol_index_out_of_range (length buf)))"
    by (simp only: fill_symbols_append f) (simp add: f(2))
  then show ?thesis
    by (simp add: fill_buffer_def split)
qed

text \<open>
  A run of the loop that ends without error asked only for symbols the buffer has and
  only for elements the host array has.
\<close>

lemma fill_symbols_Inr_bounds:
  "fill_symbols dims arr ns idx buf = (events, Inr filled) \<Longrightarrow>
     \<forall>i \<in> set idx. i < length buf \<and> (\<forall>j < ns. i < dims ! 0 \<and> j < dims ! 1)"
proof (induction idx arbitrary: buf events)
  case Nil
  then show ?case by simp
next
  case (Cons i idx)
  from Cons.prems obtain v events' where i: "i < length buf"
    and v: "fill_samples (host_read dims arr i) [0..<ns] (buf ! i) = Inr v"
    and rest: "fill_symbols dims arr ns idx (buf[i := v]) = (events', Inr filled)"
    by (auto split: if_splits sum.splits prod.splits)
  from fill_samples_Inr_reads [OF v]
  have "\<forall>j < ns. i < dims ! 0 \<and> j < dims ! 1"
    by (auto simp: host_read_Inr)
  moreover from Cons.IH [OF rest]
  have "\<forall>k \<in> set idx. k < length buf \<and> (\<forall>j < ns. k < dims ! 0 \<and> j < dims ! 1)"
    by simp
  ultimately show ?case
    using i by auto
qed

lemma fill_buffer_in_bounds:
  assumes "fill_buffer dims arr ns nsym buf = (events, Inr filled)"
  shows "nsym \<le> length buf"
    and "0 < ns \<Longrightarrow> nsym \<le> dims ! 0"
    and "0 < nsym \<Longrightarrow> ns \<le> dims ! 1"
proof -
  from assms have b: "\<forall>i \<in> set [0..<nsym]. i < length buf \<and> (\<forall>j < ns. i < dims ! 0 \<and> j < dims ! 1)"
    unfolding fill_buffer_def by (rule fill_symbols_Inr_bounds)
  show "nsym \<le> length buf"
    using b by (cases nsym) auto
  show "nsym \<le> dims ! 0" if "0 < ns"
    using b that by (cases nsym) auto
  show "ns \<le> dims ! 1" if "0 < nsym"
  proof (cases ns)
    case 0
    then show ?thesis by simp
  next
    case (Suc n)
    with b that have "n < dims ! 1"
      by (auto dest!: bspec [where x = 0])
    with Suc show ?thesis by simp
  qed
qed

text \<open>
  What the loop has written when it ends without error: the samples of symbol \<open>i\<close> are
  the elements of row \<open>i\<close> of the host array.
\<close>

lemma fill_samples_values:
  "fill_samples row idx v = Inr v' \<Longrightarrow>
     length v' = length v
   \<and> (\<forall>j \<in> set idx. row j = Inr (v' ! j))
   \<and> (\<forall>j. j \<notin> set idx \<longrightarrow> v' ! j = v ! j)"
proof (induction idx arbitrary: v)
  case Nil
  then show ?case by simp
next
  case (Cons i idx)
  from Cons.prems obtain z where z: "row i = Inr z" and i: "i < length v"
    and run: "fill_samples row idx (v[i := cf_t z]) = Inr v'"
    by (auto split: sum.splits if_splits)
  from Cons.IH [OF run] have ih: "length v' = length v"
    "\<forall>j \<in> set idx. row j = Inr (v' ! j)"
    "\<forall>j. j \<notin> set idx \<longrightarrow> v' ! j = v[i := cf_t z] ! j"
    by simp_all
  have "row i = Inr (v' ! i)"
  proof (cases "i \<in> set idx")
    case True
    with ih(2) show ?thesis by simp
  next
    case False
    with ih(3) i z show ?thesis by (simp add: cf_t_def)
  qed
  moreover have "v' ! j = v ! j" if "j \<notin> set (i # idx)" for j
    using that ih(3) by simp
  ultimately show ?case
    using ih(1,2) by simp
qed

lemma fill_symbols_values:
  "fill_symbols dims arr ns idx buf = (events, Inr filled) \<Longrightarrow>
     length filled = length buf
   \<and> (\<forall>i \<in> set idx. \<forall>j < ns. filled ! i ! j = arr i j)
   \<and> (\<forall>i. i \<notin> set idx \<longrightarrow> filled ! i = buf ! i)"
proof (induction idx arbitrary: buf events)
  case Nil
  then show ?case by simp
next
  case (Cons i idx)
  from Cons.prems obtain v events' where i: "i < length buf"
    and v: "fill_samples (host_read dims arr i) [0..<ns] (buf ! i) = Inr v"
    and rest: "fill_symbols dims arr ns idx (buf[i := v]) = (events', Inr filled)"
    by (auto split: if_splits sum.splits prod.splits)
  from fill_samples_values [OF v] have row: "\<forall>j < ns. v ! j = arr i j"
    by (auto simp: host_read_Inr)
  from Cons.IH [OF rest] have ih: "length filled = length buf"
    "\<forall>k \<in> set idx. \<forall>j < ns. filled ! k ! j = arr k j"
    "\<forall>k. k \<notin> set idx \<longrightarrow> filled ! k = buf[i := v] ! k"
    by simp_all
  have "\<forall>j < ns. filled ! i ! j = arr i j"
  proof (cases "i \<in> set idx")
    case True
    with ih(2) show ?thesis by simp
  next
    case False
    with ih(3) i row show ?thesis by simp
  qed
  moreover have "filled ! k = buf ! k" if "k \<notin> set (i # idx)" for k
    using that ih(3) by simp
  ultimately show ?case
    using ih(1,2) by simp
qed

lemma fill_buffer_rows:
  assumes "fill_buffer dims arr ns nsym buf = (events, Inr filled)"
  shows "\<forall>i < nsym. \<forall>j < ns. filled ! i ! j = arr i j"
  using fill_symbols_values [OF assms [unfolded fill_buffer_def]] by simp

text \<open>
  The loop reads the element of row \<open>i_symbol\<close> and column \<open>i_sample\<close> of an array that has
  a row for every sample and a column for every symbol: it comes to its end only on an
  array with as many rows as columns, or on an empty one.
\<close>

lemma filled_buffer_is_square:
  assumes "fill_buffer [d0, d1] arr (to_unsigned d0) (to_unsigned d1) buf = (events, Inr filled)"
    and "0 < d0" and "d0 < 2 ^ 32" and "0 < d1" and "d1 < 2 ^ 32"
  shows "d0 = d1"
  using fill_buffer_in_bounds(2,3) [OF assms(1)] assms(2-5)
  by (simp add: to_unsigned_id)

text \<open>
  With more samples in a symbol than symbols, the shape of every buffer of one PRACH
  occasion, the read of the first symbol leaves the host array.
\<close>

lemma fill_buffer_host_error:
  assumes "buf \<noteq> []" and "d1 \<le> length (buf ! 0)" and "0 < d1" and "d1 < d0"
  shows "fill_buffer [d0, d1] arr d0 d1 buf =
           ([Print_i_symbol 0], Inl (Host_index_out_of_range 0 d1))"
proof -
  have reads: "\<forall>i \<in> set [0..<d1]. i < length (buf ! 0) \<and> (\<exists>z. host_read [d0, d1] arr 0 i = Inr z)"
    using assms by (simp add: host_read_in_range)
  have run: "\<forall>i \<in> set idx. i < length v \<and> (\<exists>z. row i = Inr z) \<Longrightarrow> row k = Inl e \<Longrightarrow>
      fill_samples row (idx @ k # rest) v = Inl e" for idx k rest e
      and row :: "nat \<Rightarrow> mex_error + complex" and v
  proof (induction idx arbitrary: v)
    case Nil
    then show ?case by simp
  next
    case (Cons i idx)
    from Cons.prems(1) obtain z where z: "row i = Inr z" and i: "i < length v"
      by auto
    have "\<forall>k \<in> set idx. k < length (v[i := cf_t z]) \<and> (\<exists>z. row k = Inr z)"
      using Cons.prems(1) by simp
    from Cons.IH [OF this Cons.prems(2)] show ?case
      using z i by simp
  qed
  have split: "[0..<d0] = [0..<d1] @ (d1 # [Suc d1..<d0])"
    using assms(4) by (metis less_imp_add_positive upt_add_eq_append upt_conv_Cons zero_le
        add.left_neutral less_add_same_cancel1)
  have "fill_samples (host_read [d0, d1] arr 0) [0..<d0] (buf ! 0)
          = Inl (Host_index_out_of_range 0 d1)"
    unfolding split by (rule run [OF reads]) (simp add: host_read_def)
  moreover have "[0..<d1] = 0 # [1..<d1]"
    using assms(3) by (simp add: upt_conv_Cons)
  ultimately show ?thesis
    using assms(1) by (simp add: fill_buffer_def)
qed


subsection \<open>The errors of the PRACH step\<close>

lemma fill_samples_error:
  "fill_samples row idx v = Inl e \<Longrightarrow>
     (\<exists>i. e = Sample_index_out_of_range i) \<or> (\<exists>i. row i = Inl e)"
  by (induction idx arbitrary: v) (auto split: if_splits sum.splits)

lemma fill_symbols_error:
  "fill_symbols dims arr ns idx buf = (events, Inl e) \<Longrightarrow>
     (\<exists>i. e = Symbol_index_out_of_range i) \<or> (\<exists>i. e = Sample_index_out_of_range i)
       \<or> (\<exists>i j. e = Host_index_out_of_range i j)"
proof (induction idx arbitrary: buf events)
  case Nil
  then show ?case by simp
next
  case (Cons i idx)
  show ?case
  proof (cases "i < length buf")
    case False
    with Cons.prems show ?thesis by auto
  next
    case True
    show ?thesis
    proof (cases "fill_samples (host_read dims arr i) [0..<ns] (buf ! i)")
      case (Inl e')
      with Cons.prems True have "e' = e" by simp
      with fill_samples_error [OF Inl] show ?thesis
        by (auto simp: host_read_def split: if_splits)
    next
      case (Inr v)
      with Cons.prems True obtain events' where
        "fill_symbols dims arr ns idx (buf[i := v]) = (events', Inl e)"
        by (auto split: prod.splits)
      then show ?thesis by (rule Cons.IH)
    qed
  qed
qed

lemma create_buffer_error:
  "create_buffer lib dims ns nsym = Inl e \<Longrightarrow>
     e = Cannot_create_prach_buffer \<or> e = Invalid_number_of_samples dims"
  by (auto simp: create_buffer_def split: if_splits option.splits)

text \<open>
  The error "No PRACH preambles were detected" is raised at one place: a call that ends
  with it has called the detector and got no preamble.
\<close>

lemma no_preambles_only_from_detector:
  assumes "snd (prach_method_step lib call) = Inl No_prach_preambles_detected"
  shows "\<exists>filled.
           Detect filled (detector_config_of (in_det_cfg call))
             \<in> set (fst (prach_method_step lib call))
         \<and> to_unsigned
             (length (preambles (detect lib filled (detector_config_of (in_det_cfg call))))) = 0"
proof -
  have check: "prach_check_step_outputs_inputs call = None"
    using assms
    by (auto simp: prach_method_step_def prach_check_step_outputs_inputs_def split: if_splits)
  have rs: "matlab_to_srs_restricted_set (cfg_restricted_set (in_det_cfg call)) = Inr UNRESTRICTED"
    using assms check
    by (auto simp: prach_method_step_def matlab_to_srs_restricted_set_def split: if_splits)
  obtain d0 d1 where dims: "buffer_dimensions call = [d0, d1]"
  proof (cases "length (buffer_dimensions call) = 2")
    case True
    then show ?thesis
      using that by (cases "buffer_dimensions call"; cases "tl (buffer_dimensions call)") auto
  next
    case False
    then show ?thesis
      using assms check rs by (simp add: prach_method_step_def Let_def)
  qed
  note step = prach_step_unrestricted [OF check rs dims]
  obtain buffer where buffer:
    "create_buffer lib [d0, d1] (to_unsigned d0) (to_unsigned d1) = Inr buffer"
    using assms create_buffer_error [of lib "[d0, d1]" "to_unsigned d0" "to_unsigned d1"]
    by (cases "create_buffer lib [d0, d1] (to_unsigned d0) (to_unsigned d1)")
       (auto simp: step)
  obtain events r where fill:
    "fill_buffer (buffer_dimensions call) (in_cft_array call) (to_unsigned d0) (to_unsigned d1)
       buffer = (events, r)"
    by (cases "fill_buffer (buffer_dimensions call) (in_cft_array call) (to_unsigned d0)
                 (to_unsigned d1) buffer") blast
  show ?thesis
  proof (cases r)
    case (Inl e)
    with fill fill_symbols_error have
      "(\<exists>i. e = Symbol_index_out_of_range i) \<or> (\<exists>i. e = Sample_index_out_of_range i)
         \<or> (\<exists>i j. e = Host_index_out_of_range i j)"
      unfolding fill_buffer_def by blast
    with assms Inl fill buffer show ?thesis
      by (auto simp: step fill_and_detect_fault)
  next
    case (Inr filled)
    with assms fill buffer show ?thesis
      by (auto simp: step fill_and_detect_filled detected_preamble_indication_def Let_def
            split: if_splits)
  qed
qed

text \<open>
  A call on the unrestricted set whose input has more rows than columns, as the buffer
  of one PRACH occasion has, ends in the first pass of the outer loop with the read
  \<^verbatim>\<open>in_cft_array[0][nof_symbols]\<close>, which the host array does not have.
\<close>

lemma tall_input_leaves_host_array:
  assumes "prach_check_step_outputs_inputs call = None"
    and "matlab_to_srs_restricted_set (cfg_restricted_set (in_det_cfg call)) = Inr UNRESTRICTED"
    and "buffer_dimensions call = [d0, d1]"
    and "create_buffer lib [d0, d1] (to_unsigned d0) (to_unsigned d1) = Inr buffer"
    and "buffer \<noteq> []" and "d1 \<le> length (buffer ! 0)"
    and "0 < d1" and "d1 < d0" and "d0 < 2 ^ 32"
  shows "prach_method_step lib call =
           ([Print_dimensions [d0, d1], Print_i_symbol 0],
            Inl (Host_index_out_of_range 0 d1))"
proof -
  have "fill_buffer (buffer_dimensions call) (in_cft_array call) d0 d1 buffer =
           ([Print_i_symbol 0], Inl (Host_index_out_of_range 0 d1))"
    unfolding assms(3) using assms(5-8) by (rule fill_buffer_host_error)
  then have "fill_and_detect lib call d0 d1 buffer =
           ([Print_i_symbol 0], Inl (Host_index_out_of_range 0 d1))"
    by (rule fill_and_detect_fault)
  moreover have "to_unsigned d0 = d0" "to_unsigned d1 = d1"
    using assms(8,9) by (simp_all add: to_unsigned_id)
  ultimately show ?thesis
    unfolding prach_step_unrestricted [OF assms(1-3)]
    using assms(4) by simp
qed

subsection \<open>Claims about the PRACH detector\<close>

lemma replicate_numeral_Cons: "replicate (numeral k) x = x # replicate (pred_numeral k) x"
  by (simp add: numeral_eq_Suc)

lemma list_update_Cons_numeral: "(x # xs)[numeral k := y] = x # xs[pred_numeral k := y]"
  by (simp add: numeral_eq_Suc)

lemmas example_prach_defs =
  example_prach_library_def example_prach_call_def prach_check_step_outputs_inputs_def
  matlab_to_srs_restricted_set_def matlab_to_srs_preamble_format_def to_unsigned_def
  create_buffer_def fill_and_detect_def fill_buffer_def host_read_def detector_config_of_def
  detected_preamble_indication_def cf_t_def upt_conv_Cons Let_def replicate_numeral_Cons
  list_update_Cons_numeral

text \<open>
  Claim C1. A call whose arguments pass \<^verbatim>\<open>check_step_outputs_inputs\<close> and whose
  restricted set is \<open>TYPE_A\<close> or \<open>TYPE_B\<close> prints the line that it skips the case and
  returns: the detector is not called, nothing is assigned to the output and no error is
  raised, whatever the library, the dimensions and the contents of the buffer.
\<close>

theorem restricted_set_call_is_skipped:
  assumes "prach_check_step_outputs_inputs call = None"
    and "matlab_to_srs_restricted_set (cfg_restricted_set (in_det_cfg call)) = Inr rs"
    and "rs \<noteq> UNRESTRICTED"
  shows "prach_method_step lib call = ([Print_skipping], Inr None)"
  using assms by (rule prach_step_restricted)

theorem restricted_set_call_is_skipped_witness:
  "prach_check_step_outputs_inputs (example_prach_call ''RestrictedSetTypeB'' [7, 7, 7] 5) = None
   \<and> matlab_to_srs_restricted_set ''RestrictedSetTypeB'' = Inr TYPE_B
   \<and> prach_method_step (example_prach_library 2)
         (example_prach_call ''RestrictedSetTypeB'' [7, 7, 7] 5)
       = ([Print_skipping], Inr None)"
  using restricted_set_call_is_skipped
    [of "example_prach_call ''RestrictedSetTypeB'' [7, 7, 7] 5" TYPE_B "example_prach_library 2"]
  by (simp add: example_prach_defs)

text \<open>
  Claim C4, as the code has it. The number of samples is looked at on the unrestricted
  set only. There, with a two-dimensional buffer: when the number of samples of a
  symbol, as \<^verbatim>\<open>method_step\<close> reads it, is neither of the two sequence lengths, the call
  ends after printing the dimensions with the error "Invalid number of samples", the
  detector not having been called; when it is the long sequence length the call goes on
  with the buffer of \<^verbatim>\<open>create_prach_buffer_long(nof_symbols)\<close>, and when it is the short
  one with the buffer of \<^verbatim>\<open>create_prach_buffer_short(1, 1)\<close>.
\<close>

theorem sample_count_selects_buffer:
  assumes "prach_check_step_outputs_inputs call = None"
    and "matlab_to_srs_restricted_set (cfg_restricted_set (in_det_cfg call)) = Inr UNRESTRICTED"
    and "buffer_dimensions call = [d0, d1]"
  shows "(to_unsigned d0 \<noteq> LONG_SEQUENCE_LENGTH lib \<and> to_unsigned d0 \<noteq> SHORT_SEQUENCE_LENGTH lib
            \<longrightarrow> prach_method_step lib call
                  = ([Print_dimensions [d0, d1]], Inl (Invalid_number_of_samples [d0, d1])))
       \<and> (to_unsigned d0 = LONG_SEQUENCE_LENGTH lib
            \<longrightarrow> prach_method_step lib call =
                 (case create_prach_buffer_long lib (to_unsigned d1) of
                    None \<Rightarrow> ([Print_dimensions [d0, d1]], Inl Cannot_create_prach_buffer)
                  | Some buffer \<Rightarrow>
                      (case fill_and_detect lib call (to_unsigned d0) (to_unsigned d1) buffer of
                         (events, r) \<Rightarrow> (Print_dimensions [d0, d1] # events, r))))
       \<and> (to_unsigned d0 \<noteq> LONG_SEQUENCE_LENGTH lib \<and> to_unsigned d0 = SHORT_SEQUENCE_LENGTH lib
            \<longrightarrow> prach_method_step lib call =
                 (case create_prach_buffer_short lib 1 1 of
                    None \<Rightarrow> ([Print_dimensions [d0, d1]], Inl Cannot_create_prach_buffer)
                  | Some buffer \<Rightarrow>
                      (case fill_and_detect lib call (to_unsigned d0) (to_unsigned d1) buffer of
                         (events, r) \<Rightarrow> (Print_dimensions [d0, d1] # events, r))))"
  unfolding prach_step_unrestricted [OF assms]
  by (simp add: create_buffer_def split: option.splits)

theorem sample_count_selects_buffer_witness:
  "prach_method_step (example_prach_library 2) (example_prach_call ''UnrestrictedSet'' [3, 3] 5)
     = ([Print_dimensions [3, 3]], Inl (Invalid_number_of_samples [3, 3]))
   \<and> fst (prach_method_step (example_prach_library 2)
            (example_prach_call ''UnrestrictedSet'' [4, 4] 5))
     = [Print_dimensions [4, 4], Print_i_symbol 0, Print_i_symbol 1, Print_i_symbol 2,
        Print_i_symbol 3,
        Detect [[5, 1, 1, 1], [1, 1, 1, 1], [1, 1, 1, 1], [1, 1, 1, 1]]
          (detector_config_of (in_det_cfg (example_prach_call ''UnrestrictedSet'' [4, 4] 5)))]
   \<and> fst (prach_method_step (example_prach_library 2)
            (example_prach_call ''UnrestrictedSet'' [2, 2] 5))
     = [Print_dimensions [2, 2], Print_i_symbol 0, Print_i_symbol 1,
        Detect [[5, 1], [1, 1]]
          (detector_config_of (in_det_cfg (example_prach_call ''UnrestrictedSet'' [2, 2] 5)))]"
  using
    sample_count_selects_buffer
      [of "example_prach_call ''UnrestrictedSet'' [3, 3] 5" 3 3 "example_prach_library 2"]
    sample_count_selects_buffer
      [of "example_prach_call ''UnrestrictedSet'' [4, 4] 5" 4 4 "example_prach_library 2"]
    sample_count_selects_buffer
      [of "example_prach_call ''UnrestrictedSet'' [2, 2] 5" 2 2 "example_prach_library 2"]
  by (simp add: example_prach_defs)

text \<open>
  Claim C4 as it is written, for every input buffer, fails on a restricted set: a buffer
  of three samples a symbol, neither of the two sequence lengths, raises no error there,
  for the call is skipped before the buffer is looked at.
\<close>

theorem restricted_set_skips_sample_check:
  "to_unsigned 3 \<noteq> LONG_SEQUENCE_LENGTH (example_prach_library 2)
   \<and> to_unsigned 3 \<noteq> SHORT_SEQUENCE_LENGTH (example_prach_library 2)
   \<and> prach_method_step (example_prach_library 2)
         (example_prach_call ''RestrictedSetTypeA'' [3, 3] 5)
       = ([Print_skipping], Inr None)"
  by (simp add: prach_method_step_def example_prach_defs)

text \<open>
  Claim C2. On the unrestricted set, when the buffer was created and filled and the
  detector returns an empty list of preambles, the call ends with the error "No PRACH
  preambles were detected", an error no other place of the sources raises, after the
  one call of the detector.
\<close>

theorem no_preamble_is_an_error:
  assumes "prach_check_step_outputs_inputs call = None"
    and "matlab_to_srs_restricted_set (cfg_restricted_set (in_det_cfg call)) = Inr UNRESTRICTED"
    and "buffer_dimensions call = [d0, d1]"
    and "create_buffer lib [d0, d1] (to_unsigned d0) (to_unsigned d1) = Inr buffer"
    and "fill_buffer [d0, d1] (in_cft_array call) (to_unsigned d0) (to_unsigned d1) buffer
           = (events, Inr filled)"
    and "preambles (detect lib filled (detector_config_of (in_det_cfg call))) = []"
  shows "prach_method_step lib call =
           (Print_dimensions [d0, d1] # events
              @ [Detect filled (detector_config_of (in_det_cfg call))],
            Inl No_prach_preambles_detected)"
proof -
  note fill = assms(5) [folded assms(3)]
  show ?thesis
    unfolding prach_step_unrestricted [OF assms(1-3)]
    using assms(4,6)
    by (simp add: fill_and_detect_filled [OF fill] detected_preamble_indication_def
          to_unsigned_zero)
qed

theorem no_preamble_is_an_error_witness:
  "prach_method_step (example_prach_library 2) (example_prach_call ''UnrestrictedSet'' [4, 4] 0)
     = ([Print_dimensions [4, 4], Print_i_symbol 0, Print_i_symbol 1, Print_i_symbol 2,
         Print_i_symbol 3,
         Detect [[0, 1, 1, 1], [1, 1, 1, 1], [1, 1, 1, 1], [1, 1, 1, 1]]
           (detector_config_of (in_det_cfg (example_prach_call ''UnrestrictedSet'' [4, 4] 0)))],
        Inl No_prach_preambles_detected)"
  using no_preamble_is_an_error
    [of "example_prach_call ''UnrestrictedSet'' [4, 4] 0" 4 4 "example_prach_library 2"
        "[[0, 0, 0, 0], [0, 0, 0, 0], [0, 0, 0, 0], [0, 0, 0, 0]]"
        "[Print_i_symbol 0, Print_i_symbol 1, Print_i_symbol 2, Print_i_symbol 3]"
        "[[0, 1, 1, 1], [1, 1, 1, 1], [1, 1, 1, 1], [1, 1, 1, 1]]"]
  by (simp add: example_prach_defs)

text \<open>
  Claim C3. When the list of preambles the detector returns is not empty, the structure
  assigned to the output holds the number of preambles of the list, the index, time
  advance, power and SNR of the last preamble of the list, and the RSSI, time resolution
  and maximum time advance of the result.
\<close>

theorem last_preamble_is_reported:
  assumes "prach_check_step_outputs_inputs call = None"
    and "matlab_to_srs_restricted_set (cfg_restricted_set (in_det_cfg call)) = Inr UNRESTRICTED"
    and "buffer_dimensions call = [d0, d1]"
    and "create_buffer lib [d0, d1] (to_unsigned d0) (to_unsigned d1) = Inr buffer"
    and "fill_buffer [d0, d1] (in_cft_array call) (to_unsigned d0) (to_unsigned d1) buffer
           = (events, Inr filled)"
    and "detect lib filled (detector_config_of (in_det_cfg call)) = result"
    and "preambles result \<noteq> []"
    and "length (preambles result) < 2 ^ 32"
  shows "prach_method_step lib call =
           (Print_dimensions [d0, d1] # events
              @ [Detect filled (detector_config_of (in_det_cfg call))],
            Inr (Some
              [(''nof_detected_preambles'', Scalar_size_t (length (preambles result))),
               (''preamble_index'', Scalar_unsigned (preamble_index (last (preambles result)))),
               (''time_advance'',
                  Scalar_double (to_seconds (time_advance (last (preambles result))))),
               (''power_dB'', Scalar_float (power_dB (last (preambles result)))),
               (''snr_dB'', Scalar_float (snr_dB (last (preambles result)))),
               (''rssi_dB'', Scalar_float (rssi_dB result)),
               (''time_resolution'', Scalar_double (to_seconds (time_resolution result))),
               (''time_advance_max'', Scalar_double (to_seconds (time_advance_max result)))]))"
proof -
  note fill = assms(5) [folded assms(3)]
  show ?thesis
    unfolding prach_step_unrestricted [OF assms(1-3)]
    using assms(4,6,7,8)
    by (simp add: fill_and_detect_filled [OF fill] detected_preamble_indication_def
          to_unsigned_id Let_def)
qed

theorem last_preamble_is_reported_witness:
  "snd (prach_method_step (example_prach_library 2)
          (example_prach_call ''UnrestrictedSet'' [4, 4] 5))
     = Inr (Some
         [(''nof_detected_preambles'', Scalar_size_t 2),
          (''preamble_index'', Scalar_unsigned 9),
          (''time_advance'', Scalar_double 10),
          (''power_dB'', Scalar_float 11),
          (''snr_dB'', Scalar_float 12),
          (''rssi_dB'', Scalar_float 1),
          (''time_resolution'', Scalar_double 2),
          (''time_advance_max'', Scalar_double 3)])"
  using last_preamble_is_reported
    [of "example_prach_call ''UnrestrictedSet'' [4, 4] 5" 4 4 "example_prach_library 2"
        "[[0, 0, 0, 0], [0, 0, 0, 0], [0, 0, 0, 0], [0, 0, 0, 0]]"
        "[Print_i_symbol 0, Print_i_symbol 1, Print_i_symbol 2, Print_i_symbol 3]"
        "[[5, 1, 1, 1], [1, 1, 1, 1], [1, 1, 1, 1], [1, 1, 1, 1]]"
        "detect (example_prach_library 2)
           [[5, 1, 1, 1], [1, 1, 1, 1], [1, 1, 1, 1], [1, 1, 1, 1]]
           (detector_config_of (in_det_cfg (example_prach_call ''UnrestrictedSet'' [4, 4] 5)))"]
  by (simp add: example_prach_defs)

text \<open>
  Claim C10. The loop over the symbols leaves the buffer on the short path. The buffer of
  \<^verbatim>\<open>create_prach_buffer_short(1, 1)\<close> does not depend on \<^verbatim>\<open>nof_symbols\<close>. When it has
  fewer symbols than the input has columns, and no more symbols than a short sequence
  has samples, a call whose input has as many rows as a short sequence has samples and
  at least as many columns passes the check of the number of samples, reads only
  elements the host array has, fills every symbol of the buffer, and then asks for a
  symbol the buffer does not have. The detector is not reached.
\<close>

theorem short_path_overruns_buffer:
  assumes "prach_check_step_outputs_inputs call = None"
    and "matlab_to_srs_restricted_set (cfg_restricted_set (in_det_cfg call)) = Inr UNRESTRICTED"
    and "SHORT_SEQUENCE_LENGTH lib \<noteq> LONG_SEQUENCE_LENGTH lib"
    and "create_prach_buffer_short lib 1 1 = Some buffer"
    and "\<forall>symbol_view \<in> set buffer. SHORT_SEQUENCE_LENGTH lib \<le> length symbol_view"
    and "length buffer \<le> SHORT_SEQUENCE_LENGTH lib"
    and "length buffer < d1"
    and "SHORT_SEQUENCE_LENGTH lib \<le> d1"
    and "d1 < 2 ^ 32"
    and "buffer_dimensions call = [SHORT_SEQUENCE_LENGTH lib, d1]"
  shows "prach_method_step lib call =
           (Print_dimensions [SHORT_SEQUENCE_LENGTH lib, d1]
              # map Print_i_symbol [0..<Suc (length buffer)],
            Inl (Symbol_index_out_of_range (length buffer)))"
proof -
  have short: "SHORT_SEQUENCE_LENGTH lib < 2 ^ 32"
    using assms(8,9) by simp
  have "create_buffer lib [SHORT_SEQUENCE_LENGTH lib, d1] (SHORT_SEQUENCE_LENGTH lib) d1
          = Inr buffer"
    using assms(3,4) by (simp add: create_buffer_def)
  moreover have "fill_buffer [SHORT_SEQUENCE_LENGTH lib, d1] (in_cft_array call)
        (SHORT_SEQUENCE_LENGTH lib) d1 buffer
      = (map Print_i_symbol [0..<Suc (length buffer)],
         Inl (Symbol_index_out_of_range (length buffer)))"
    using assms(5,6,7,8) by (intro fill_buffer_overrun) simp_all
  then have "fill_and_detect lib call (SHORT_SEQUENCE_LENGTH lib) d1 buffer
      = (map Print_i_symbol [0..<Suc (length buffer)],
         Inl (Symbol_index_out_of_range (length buffer)))"
    by (intro fill_and_detect_fault) (simp only: assms(10))
  ultimately show ?thesis
    unfolding prach_step_unrestricted [OF assms(1,2,10)]
    using assms(9) short by (simp add: to_unsigned_id)
qed

theorem short_path_overruns_buffer_witness:
  "prach_method_step (example_prach_library 1) (example_prach_call ''UnrestrictedSet'' [2, 2] 5)
     = ([Print_dimensions [2, 2], Print_i_symbol 0, Print_i_symbol 1],
        Inl (Symbol_index_out_of_range 1))"
  using short_path_overruns_buffer
    [of "example_prach_call ''UnrestrictedSet'' [2, 2] 5" "example_prach_library 1"
        "[[0, 0]]" 2]
  by (simp add: example_prach_defs)

subsection \<open>Bit sets and the DM-RS pattern\<close>

lemma bitset_count_le: "bitset_count bits \<le> length bits"
  by (simp add: bitset_count_def)

lemma bounded_bitset_Inr:
  "bounded_bitset N bits = Inr m \<longleftrightarrow> m = bits \<and> length bits \<le> N"
  by (auto simp: bounded_bitset_def)

lemma make_dmrs_pattern_Inr:
  assumes "make_dmrs_pattern lib cfg_in = Inr pattern"
  shows "symbols pattern = Symbols cfg_in \<and> length (Symbols cfg_in) \<le> MAX_NSYMB_PER_SLOT lib
       \<and> rb_mask pattern = RBMask cfg_in \<and> length (RBMask cfg_in) \<le> MAX_RB lib
       \<and> re_pattern pattern = REPattern cfg_in \<and> length (REPattern cfg_in) \<le> NRE"
  using assms
  by (auto simp: make_dmrs_pattern_def bounded_bitset_Inr split: sum.splits if_splits)

lemma expected_pilots_exact:
  assumes "bitset_count (rb_mask pattern) * bitset_count (re_pattern pattern) < 2 ^ 32"
    and "bitset_count (symbols pattern) < 2 ^ 32"
    and "bitset_count (rb_mask pattern) * bitset_count (re_pattern pattern)
             * bitset_count (symbols pattern) < 2 ^ 32"
  shows "expected_pilots pattern =
     (bitset_count (rb_mask pattern) * bitset_count (re_pattern pattern),
      bitset_count (symbols pattern),
      bitset_count (rb_mask pattern) * bitset_count (re_pattern pattern)
        * bitset_count (symbols pattern))"
  using assms by (simp add: expected_pilots_def to_unsigned_id Let_def)

lemma pattern_counts_bounded:
  assumes "make_dmrs_pattern lib cfg_in = Inr pattern"
    and "capacities_in_range lib"
  shows "bitset_count (rb_mask pattern) * bitset_count (re_pattern pattern) < 2 ^ 32"
    and "bitset_count (symbols pattern) < 2 ^ 32"
    and "bitset_count (rb_mask pattern) * bitset_count (re_pattern pattern)
             * bitset_count (symbols pattern) < 2 ^ 32"
proof -
  from make_dmrs_pattern_Inr [OF assms(1)]
  have b: "bitset_count (rb_mask pattern) \<le> MAX_RB lib"
    "bitset_count (re_pattern pattern) \<le> NRE"
    "bitset_count (symbols pattern) \<le> MAX_NSYMB_PER_SLOT lib"
    using bitset_count_le [of "RBMask cfg_in"] bitset_count_le [of "REPattern cfg_in"]
      bitset_count_le [of "Symbols cfg_in"]
    by auto
  have "bitset_count (rb_mask pattern) * bitset_count (re_pattern pattern) \<le> MAX_RB lib * NRE"
    using b by (intro mult_le_mono)
  moreover have "bitset_count (rb_mask pattern) * bitset_count (re_pattern pattern)
             * bitset_count (symbols pattern) \<le> MAX_RB lib * NRE * MAX_NSYMB_PER_SLOT lib"
    using b by (intro mult_le_mono)
  ultimately show "bitset_count (rb_mask pattern) * bitset_count (re_pattern pattern) < 2 ^ 32"
    and "bitset_count (symbols pattern) < 2 ^ 32"
    and "bitset_count (rb_mask pattern) * bitset_count (re_pattern pattern)
             * bitset_count (symbols pattern) < 2 ^ 32"
    using assms(2) b(3) unfolding capacities_in_range_def by linarith+
qed

subsection \<open>Writing the grid\<close>

lemma unsigned_minus_le:
  assumes "b \<le> a" and "a < 2 ^ 32"
  shows "unsigned_minus a b = a - b"
proof -
  have "a + 2 ^ 32 - b = (a - b) + 1 * 2 ^ 32"
    using assms(1) by simp
  moreover have "a - b < 2 ^ 32"
    using assms(2) by simp
  ultimately show ?thesis
    unfolding unsigned_minus_def by (simp only: mod_mult_self1 mod_less)
qed

lemma put_symbols_ok:
  assumes "length view = remaining" and "nsc * length idx \<le> remaining" and "remaining < 2 ^ 32"
  shows "\<exists>grid'. put_symbols lib nsc i_port idx (grid, view, remaining)
           = Inr (grid', drop (nsc * length idx) view, remaining - nsc * length idx)"
  using assms
proof (induction idx arbitrary: grid view remaining)
  case Nil
  then show ?case by simp
next
  case (Cons i idx)
  from Cons.prems have le: "nsc \<le> remaining" and rest: "nsc * length idx \<le> remaining - nsc"
    by simp_all
  have wrap: "unsigned_minus remaining nsc = remaining - nsc"
    using le Cons.prems(3) by (rule unsigned_minus_le)
  have first: "span_first view nsc = Inr (take nsc view)"
    using le Cons.prems(1) by (simp add: span_first_def)
  have last: "span_last view (remaining - nsc) = Inr (drop nsc view)"
    using le Cons.prems(1) by (simp add: span_last_def)
  have "length (drop nsc view) = remaining - nsc" "remaining - nsc < 2 ^ 32"
    using Cons.prems by simp_all
  from Cons.IH [OF this(1) rest this(2)]
  obtain grid' where
    "put_symbols lib nsc i_port idx (put lib grid i_port i 0 (take nsc view), drop nsc view, remaining - nsc)
       = Inr (grid', drop (nsc * length idx) (drop nsc view), remaining - nsc - nsc * length idx)"
    by blast
  then show ?case
    by (simp add: first wrap last add.commute)
qed

lemma put_ports_ok:
  assumes "length view = remaining" and "nsc * nsym * length ports \<le> remaining"
    and "remaining < 2 ^ 32"
  shows "\<exists>grid'. put_ports lib nsc nsym ports (grid, view, remaining)
           = Inr (grid', drop (nsc * nsym * length ports) view,
                  remaining - nsc * nsym * length ports)"
  using assms
proof (induction ports arbitrary: grid view remaining)
  case Nil
  then show ?case by simp
next
  case (Cons p ports)
  from Cons.prems have le: "nsc * length [0..<nsym] \<le> remaining"
    and rest: "nsc * nsym * length ports \<le> remaining - nsc * nsym"
    by simp_all
  from put_symbols_ok [where lib = lib and i_port = p and grid = grid,
      OF Cons.prems(1) le Cons.prems(3)]
  obtain g1 where g1: "put_symbols lib nsc p [0..<nsym] (grid, view, remaining)
      = Inr (g1, drop (nsc * nsym) view, remaining - nsc * nsym)"
    by auto
  have "length (drop (nsc * nsym) view) = remaining - nsc * nsym" "remaining - nsc * nsym < 2 ^ 32"
    using Cons.prems by simp_all
  from Cons.IH [OF this(1) rest this(2), of g1]
  obtain grid' where "put_ports lib nsc nsym ports
      (g1, drop (nsc * nsym) view, remaining - nsc * nsym)
    = Inr (grid', drop (nsc * nsym * length ports) (drop (nsc * nsym) view),
           remaining - nsc * nsym - nsc * nsym * length ports)"
    by blast
  then show ?case
    by (simp add: g1 add.commute)
qed

lemma fill_grid_ok:
  assumes "length (elements in_grid) = getNumberOfElements in_grid"
    and "getNumberOfElements in_grid < 2 ^ 32"
    and "nsc * nsym * np \<le> getNumberOfElements in_grid"
  shows "\<exists>grid'. fill_grid lib in_grid nsc nsym np grid = Inr grid'"
proof -
  have "length (elements in_grid) = to_unsigned (getNumberOfElements in_grid)"
    using assms(1,2) by (simp add: to_unsigned_id)
  moreover have "nsc * nsym * length [0..<np] \<le> to_unsigned (getNumberOfElements in_grid)"
    using assms(2,3) by (simp add: to_unsigned_id)
  ultimately obtain grid' where
    "put_ports lib nsc nsym [0..<np] (grid, elements in_grid, to_unsigned (getNumberOfElements in_grid))
       = Inr (grid', drop (nsc * nsym * length [0..<np]) (elements in_grid),
              to_unsigned (getNumberOfElements in_grid) - nsc * nsym * length [0..<np])"
    using put_ports_ok [where lib = lib and grid = grid, OF _ _ to_unsigned_less] by blast
  then show ?thesis
    by (simp add: fill_grid_def)
qed

text \<open>The dimensions read from a grid the check accepts multiply to no more than its size.\<close>

lemma grid_dims_le:
  assumes "estimator_check_step_outputs_inputs call = None"
  shows "grid_nof_subcarriers call * grid_nof_symbols call * grid_nof_rx_ports call
           \<le> getNumberOfElements (rxGrid call)"
proof -
  let ?d = "getDimensions (rxGrid call)"
  from assms have len: "length ?d = 2 \<or> length ?d = 3"
    by (auto simp: estimator_check_step_outputs_inputs_def split: if_splits)
  then show ?thesis
  proof
    assume "length ?d = 2"
    then obtain a b where d: "?d = [a, b]"
      by (cases ?d; cases "tl ?d") auto
    have "to_unsigned a * to_unsigned b \<le> a * b"
      by (intro mult_le_mono to_unsigned_le)
    then show ?thesis
      by (simp add: d grid_nof_subcarriers_def grid_nof_symbols_def grid_nof_rx_ports_def
            getNumberOfElements_def)
  next
    assume "length ?d = 3"
    then obtain a b c where d: "?d = [a, b, c]"
      by (cases ?d; cases "tl ?d"; cases "tl (tl ?d)") auto
    have "to_unsigned a * to_unsigned b * to_unsigned c \<le> a * b * c"
      by (intro mult_le_mono to_unsigned_le)
    then show ?thesis
      by (simp add: d grid_nof_subcarriers_def grid_nof_symbols_def grid_nof_rx_ports_def
            getNumberOfElements_def mult.assoc)
  qed
qed


subsection \<open>The pilots\<close>

lemma set_slices_ok:
  assumes "length view = nof_subc (pilot_dims p) * re_nof_symbols (pilot_dims p)"
    and "\<forall>i \<in> set idx. i < nof_slices (pilot_dims p)"
  shows "\<exists>p'. set_slices view idx p = Inr p'
           \<and> pilot_dims p' = pilot_dims p
           \<and> length (slices p') = length (slices p)
           \<and> (\<forall>i \<in> set idx. i < length (slices p) \<longrightarrow> slices p' ! i = view)
           \<and> (\<forall>j. j \<notin> set idx \<longrightarrow> slices p' ! j = slices p ! j)"
  using assms
proof (induction idx arbitrary: p)
  case Nil
  then show ?case by simp
next
  case (Cons i idx)
  let ?p1 = "p\<lparr>slices := (slices p)[i := view]\<rparr>"
  have step: "set_slice p view i = Inr ?p1"
    using Cons.prems by (simp add: set_slice_def)
  have "length view = nof_subc (pilot_dims ?p1) * re_nof_symbols (pilot_dims ?p1)"
    "\<forall>k \<in> set idx. k < nof_slices (pilot_dims ?p1)"
    using Cons.prems by simp_all
  from Cons.IH [OF this] obtain p' where p':
    "set_slices view idx ?p1 = Inr p'"
    "pilot_dims p' = pilot_dims ?p1"
    "length (slices p') = length (slices ?p1)"
    "\<forall>k \<in> set idx. k < length (slices ?p1) \<longrightarrow> slices p' ! k = view"
    "\<forall>j. j \<notin> set idx \<longrightarrow> slices p' ! j = slices ?p1 ! j"
    by blast
  have "slices p' ! i = view" if "i < length (slices p)"
  proof (cases "i \<in> set idx")
    case True
    with p'(4) that show ?thesis by simp
  next
    case False
    with p'(5) that show ?thesis by simp
  qed
  moreover have "slices p' ! j = slices p ! j" if "j \<notin> set (i # idx)" for j
    using that p'(5) by simp
  ultimately show ?case
    using step p'(1-4) by auto
qed

lemma make_pilots_ok:
  assumes "length view = nof_pilot_res * nof_pilot_symbols"
  shows "\<exists>pilots. make_pilots view nof_pilot_res nof_pilot_symbols nof_rx_ports = Inr pilots
           \<and> length (slices pilots) = nof_rx_ports
           \<and> (\<forall>i_port < nof_rx_ports. slices pilots ! i_port = view)"
proof -
  let ?p = "new_dmrs_symbol_list
          \<lparr>nof_subc = nof_pilot_res, re_nof_symbols = nof_pilot_symbols,
           nof_slices = nof_rx_ports\<rparr>"
  have "length view = nof_subc (pilot_dims ?p) * re_nof_symbols (pilot_dims ?p)"
    "\<forall>i \<in> set [0..<nof_rx_ports]. i < nof_slices (pilot_dims ?p)"
    using assms by (simp_all add: new_dmrs_symbol_list_def)
  from set_slices_ok [OF this] obtain p' where
    "set_slices view [0..<nof_rx_ports] ?p = Inr p'"
    "length (slices p') = length (slices ?p)"
    "\<forall>i \<in> set [0..<nof_rx_ports]. i < length (slices ?p) \<longrightarrow> slices p' ! i = view"
    by blast
  then show ?thesis
    by (auto simp: make_pilots_def new_dmrs_symbol_list_def)
qed

lemma set_slices_error:
  "set_slices view idx p = Inl e \<Longrightarrow> \<exists>i. e = Slice_out_of_range i"
  by (induction idx arbitrary: p) (auto simp: set_slice_def split: sum.splits if_splits)

text \<open>What a run of the loop that ends without error has made of the list.\<close>

lemma set_slices_Inr:
  assumes "set_slices view idx p = Inr p'"
    and "length (slices p) = nof_slices (pilot_dims p)"
  shows "pilot_dims p' = pilot_dims p
       \<and> length (slices p') = length (slices p)
       \<and> (\<forall>i \<in> set idx. slices p' ! i = view)
       \<and> (\<forall>j. j \<notin> set idx \<longrightarrow> slices p' ! j = slices p ! j)"
  using assms
proof (induction idx arbitrary: p)
  case Nil
  then show ?case by simp
next
  case (Cons i idx)
  let ?p1 = "p\<lparr>slices := (slices p)[i := view]\<rparr>"
  from Cons.prems(1) have i: "i < nof_slices (pilot_dims p)"
    and run: "set_slices view idx ?p1 = Inr p'"
    by (auto simp: set_slice_def split: if_splits)
  have "length (slices ?p1) = nof_slices (pilot_dims ?p1)"
    using Cons.prems(2) by simp
  from Cons.IH [OF run this] have ih:
    "pilot_dims p' = pilot_dims p"
    "length (slices p') = length (slices p)"
    "\<forall>k \<in> set idx. slices p' ! k = view"
    "\<forall>j. j \<notin> set idx \<longrightarrow> slices p' ! j = (slices p)[i := view] ! j"
    by simp_all
  have "slices p' ! i = view"
  proof (cases "i \<in> set idx")
    case True
    with ih(3) show ?thesis by simp
  next
    case False
    with ih(4) i Cons.prems(2) show ?thesis by simp
  qed
  moreover have "slices p' ! j = slices p ! j" if "j \<notin> set (i # idx)" for j
    using that ih(4) by simp
  ultimately show ?case
    using ih(1-3) by simp
qed

text \<open>The pilots of a call: one slice for each port, each the view of the pilots.\<close>

lemma make_pilots_Inr:
  assumes "make_pilots view nof_pilot_res nof_pilot_symbols nof_rx_ports = Inr pilots"
  shows "pilots =
           \<lparr>pilot_dims = \<lparr>nof_subc = nof_pilot_res, re_nof_symbols = nof_pilot_symbols,
                          nof_slices = nof_rx_ports\<rparr>,
            slices = replicate nof_rx_ports view\<rparr>"
proof -
  let ?d = "\<lparr>nof_subc = nof_pilot_res, re_nof_symbols = nof_pilot_symbols,
             nof_slices = nof_rx_ports\<rparr>"
  from assms have run: "set_slices view [0..<nof_rx_ports] (new_dmrs_symbol_list ?d) = Inr pilots"
    by (simp add: make_pilots_def)
  have "length (slices (new_dmrs_symbol_list ?d)) = nof_slices (pilot_dims (new_dmrs_symbol_list ?d))"
    by (simp add: new_dmrs_symbol_list_def)
  from set_slices_Inr [OF run this] have
    "pilot_dims pilots = ?d" "length (slices pilots) = nof_rx_ports"
    "\<forall>i < nof_rx_ports. slices pilots ! i = view"
    by (simp_all add: new_dmrs_symbol_list_def)
  then have "pilot_dims pilots = ?d" "slices pilots = replicate nof_rx_ports view"
    by (simp_all add: list_eq_iff_nth_eq)
  then show ?thesis
    by (cases pilots) simp
qed

subsection \<open>The estimates and the metrics\<close>

lemma estimate_ports_error:
  "estimate_ports lib grid pilots cfg idx st = Inl e \<Longrightarrow> \<exists>a b. e = Copy_out_of_range a b"
proof (induction idx arbitrary: st)
  case Nil
  then show ?case by simp
next
  case (Cons i idx)
  then show ?case
    by (cases st) (auto simp: copy_n_def Let_def split: sum.splits if_splits prod.splits)
qed

lemma estimate_ports_length:
  "estimate_ports lib grid pilots cfg idx (e, out, iter) = Inr (e', out', iter') \<Longrightarrow>
     length out' = length out"
proof (induction idx arbitrary: e out iter)
  case Nil
  then show ?case by simp
next
  case (Cons i idx)
  then show ?case
    by (fastforce simp: copy_n_def Let_def split: sum.splits if_splits prod.splits)
qed

text \<open>The copies land one after the other, from the start of the output.\<close>

lemma estimate_ports_elements:
  assumes "estimate_ports lib grid pilots cfg idx (e, out, iter) = Inr (e', out', iter')"
    and "iter \<le> length out"
  shows "out' = take iter out @ concat (path_estimates lib grid pilots cfg idx e) @ drop iter' out
       \<and> iter' = iter + length (concat (path_estimates lib grid pilots cfg idx e))
       \<and> iter' \<le> length out"
  using assms
proof (induction idx arbitrary: e out iter)
  case Nil
  then show ?case by simp
next
  case (Cons i idx)
  let ?e1 = "compute lib e grid i pilots cfg"
  let ?v = "get_path_ch_estimate lib ?e1 i"
  let ?out1 = "take iter out @ ?v @ drop (iter + length ?v) out"
  let ?rest = "concat (path_estimates lib grid pilots cfg idx ?e1)"
  from Cons.prems(1) have fits: "iter + length ?v \<le> length out"
    and run: "estimate_ports lib grid pilots cfg idx (?e1, ?out1, iter + length ?v)
                = Inr (e', out', iter')"
    by (auto simp: copy_n_def Let_def split: if_splits)
  have len1: "length ?out1 = length out"
    using fits by simp
  with fits have "iter + length ?v \<le> length ?out1"
    by simp
  from Cons.IH [OF run this] have ih:
    "out' = take (iter + length ?v) ?out1 @ ?rest @ drop iter' ?out1"
    "iter' = iter + length ?v + length ?rest"
    "iter' \<le> length ?out1"
    by blast+
  have t: "take (iter + length ?v) ?out1 = take iter out @ ?v"
    using fits by simp
  have d: "drop iter' ?out1 = drop iter' out"
    using fits ih(2) by (simp add: add.commute add.left_commute)
  show ?case
    using ih t d len1 by (simp add: Let_def)
qed


text \<open>
  The estimate the metrics are read from: the estimator was called on it once for each
  port, in the order of the ports, with the grid, the pilots and the configuration.
\<close>

lemma estimate_ports_final:
  "estimate_ports lib grid pilots cfg idx (e, out, iter) = Inr (e', out', iter') \<Longrightarrow>
     e' = foldl (\<lambda>ch_estimate i_port. compute lib ch_estimate grid i_port pilots cfg) e idx"
proof (induction idx arbitrary: e out iter)
  case Nil
  then show ?case by simp
next
  case (Cons i idx)
  then show ?case
    by (fastforce simp: Let_def split: sum.splits prod.splits)
qed

lemma port_metrics_result:
  assumes "port_metrics lib e idx info t = (info', t')"
  shows "length info' = length info
       \<and> (\<forall>i \<in> set idx. i < length info \<longrightarrow> info' ! i = port_info lib e i)
       \<and> (\<forall>j. j \<notin> set idx \<longrightarrow> info' ! j = info ! j)
       \<and> total_noise_var t' = total_noise_var t + sum_list (map (get_noise_variance lib e) idx)
       \<and> total_rsrp t' = total_rsrp t + sum_list (map (get_rsrp lib e) idx)
       \<and> total_epre t' = total_epre t + sum_list (map (get_epre lib e) idx)
       \<and> total_time_alignment t' = total_time_alignment t
           + sum_list (map (\<lambda>i. to_seconds (get_time_alignment lib e i)) idx)"
  using assms
proof (induction idx arbitrary: info t)
  case Nil
  then show ?case by simp
next
  case (Cons i idx)
  let ?info1 = "info[i := port_info lib e i]"
  let ?t1 = "\<lparr>total_noise_var = total_noise_var t + get_noise_variance lib e i,
        total_rsrp = total_rsrp t + get_rsrp lib e i,
        total_epre = total_epre t + get_epre lib e i,
        total_time_alignment = total_time_alignment t + to_seconds (get_time_alignment lib e i)\<rparr>"
  from Cons.prems have "port_metrics lib e idx ?info1 ?t1 = (info', t')"
    by simp
  from Cons.IH [OF this] have ih:
    "length info' = length ?info1"
    "\<forall>k \<in> set idx. k < length ?info1 \<longrightarrow> info' ! k = port_info lib e k"
    "\<forall>j. j \<notin> set idx \<longrightarrow> info' ! j = ?info1 ! j"
    "total_noise_var t' = total_noise_var ?t1 + sum_list (map (get_noise_variance lib e) idx)"
    "total_rsrp t' = total_rsrp ?t1 + sum_list (map (get_rsrp lib e) idx)"
    "total_epre t' = total_epre ?t1 + sum_list (map (get_epre lib e) idx)"
    "total_time_alignment t' = total_time_alignment ?t1
           + sum_list (map (\<lambda>i. to_seconds (get_time_alignment lib e i)) idx)"
    by blast+
  have "info' ! i = port_info lib e i" if "i < length info"
  proof (cases "i \<in> set idx")
    case True
    with ih(2) that show ?thesis by simp
  next
    case False
    with ih(3) that show ?thesis by simp
  qed
  moreover have "info' ! j = info ! j" if "j \<notin> set (i # idx)" for j
    using that ih(3) by simp
  ultimately show ?case
    using ih(1,2,4-7) by (auto simp: add.assoc)
qed

lemma sum_list_upt: "sum_list (map f [0..<n]) = (\<Sum>i<n. f i)"
  by (simp add: interv_sum_list_conv_sum_set_nat lessThan_atLeast0)

lemma make_info_out_Inr:
  assumes "make_info_out lib e n = Inr info_out"
  shows "length info_out = n + 1
       \<and> (\<forall>i_port < n. info_out ! i_port = port_info lib e i_port)
       \<and> info_out ! n =
           global_info
             \<lparr>total_noise_var = (\<Sum>i<n. get_noise_variance lib e i),
              total_rsrp = (\<Sum>i<n. get_rsrp lib e i),
              total_epre = (\<Sum>i<n. get_epre lib e i),
              total_time_alignment = (\<Sum>i<n. to_seconds (get_time_alignment lib e i))\<rparr> n"
proof -
  let ?info0 = "replicate (to_unsigned (n + 1)) ([] :: mx_struct)"
  let ?t0 = "\<lparr>total_noise_var = 0, total_rsrp = 0, total_epre = 0, total_time_alignment = 0\<rparr>"
  obtain info' t' where pm: "port_metrics lib e [0..<n] ?info0 ?t0 = (info', t')"
    by (cases "port_metrics lib e [0..<n] ?info0 ?t0") blast
  from assms pm have size: "n < to_unsigned (n + 1)"
    and out: "info_out = info'[n := global_info t' n]"
    by (auto simp: make_info_out_def Let_def split: if_splits)
  from size to_unsigned_le [of "n + 1"] have len0: "length ?info0 = n + 1"
    by simp
  from port_metrics_result [OF pm] have r:
    "length info' = length ?info0"
    "\<forall>i \<in> set [0..<n]. i < length ?info0 \<longrightarrow> info' ! i = port_info lib e i"
    "total_noise_var t' = (\<Sum>i<n. get_noise_variance lib e i)"
    "total_rsrp t' = (\<Sum>i<n. get_rsrp lib e i)"
    "total_epre t' = (\<Sum>i<n. get_epre lib e i)"
    "total_time_alignment t' = (\<Sum>i<n. to_seconds (get_time_alignment lib e i))"
    by (simp_all add: sum_list_upt)
  have "t' = \<lparr>total_noise_var = (\<Sum>i<n. get_noise_variance lib e i),
              total_rsrp = (\<Sum>i<n. get_rsrp lib e i),
              total_epre = (\<Sum>i<n. get_epre lib e i),
              total_time_alignment = (\<Sum>i<n. to_seconds (get_time_alignment lib e i))\<rparr>"
    using r(3-6) by simp
  then show ?thesis
    using out r(1,2) len0 by (auto simp: nth_list_update)
qed

lemma make_info_out_error:
  "make_info_out lib e n = Inl err \<Longrightarrow> \<exists>k. err = Struct_index_out_of_range k"
  by (auto simp: make_info_out_def Let_def split: if_splits prod.splits)


subsection \<open>The estimator step, branch by branch\<close>

lemma estimator_step_reaches_checks:
  assumes "estimator_check_step_outputs_inputs call = None"
    and "matlab_to_srs_cyclic_prefix lib (CyclicPrefix (in_cfg call)) = Inr in_cp"
    and "matlab_to_srs_subcarrier_spacing lib (SubcarrierSpacing (in_cfg call)) = Inr in_scs"
    and "make_dmrs_pattern lib (in_cfg call) = Inr pattern"
    and "create_resource_grid lib (grid_nof_subcarriers call) (grid_nof_symbols call)
           (grid_nof_rx_ports call) = Some grid"
  shows "estimator_method_step lib call =
     (if to_unsigned (length (PortIndices (in_cfg call))) \<noteq> grid_nof_rx_ports call
      then Inl (Port_indices_mismatch (to_unsigned (length (PortIndices (in_cfg call))))
                  (grid_nof_rx_ports call))
      else
        (case fill_grid lib (rxGrid call) (grid_nof_subcarriers call) (grid_nof_symbols call)
                (grid_nof_rx_ports call) grid of
           Inl e \<Rightarrow> Inl e
         | Inr grid' \<Rightarrow>
             estimate_and_report lib call grid' pattern
               (make_configuration call in_cp in_scs pattern)))"
  using assms by (simp add: estimator_method_step_def Let_def)

lemma estimator_step_Inr:
  assumes "estimator_method_step lib call = Inr r"
  shows "\<exists>pattern grid cfg.
           estimator_check_step_outputs_inputs call = None
         \<and> make_dmrs_pattern lib (in_cfg call) = Inr pattern
         \<and> to_unsigned (length (PortIndices (in_cfg call))) = grid_nof_rx_ports call
         \<and> estimate_and_report lib call grid pattern cfg = Inr r"
  using assms unfolding estimator_method_step_def Let_def
  by (auto split: option.splits sum.splits if_splits)

lemma estimate_and_report_Inr:
  assumes "estimate_and_report lib call grid pattern cfg = Inr r"
  shows "\<exists>pilots. getNumberOfElements (refSym call) = snd (snd (expected_pilots pattern))
           \<and> make_pilots (elements (refSym call)) (fst (expected_pilots pattern))
               (fst (snd (expected_pilots pattern))) (grid_nof_rx_ports call) = Inr pilots
           \<and> run_estimator lib (grid_nof_rx_ports call) grid pattern cfg pilots = Inr r"
  using assms unfolding estimate_and_report_def Let_def
  by (auto split: sum.splits if_splits prod.splits)

lemma run_estimator_Inr:
  assumes "run_estimator lib n grid pattern cfg pilots = Inr (ch_est_out, info_out)"
  shows "\<exists>ch_estimate.
           make_info_out lib ch_estimate n = Inr info_out
         \<and> getType ch_est_out = COMPLEX_SINGLE
         \<and> getDimensions ch_est_out =
             [to_unsigned (to_unsigned (length (rb_mask pattern)) * NRE),
              to_unsigned (length (symbols pattern)), n]
         \<and> length (elements ch_est_out) = prod_list (getDimensions ch_est_out)"
  using assms unfolding run_estimator_def Let_def
  by (auto split: sum.splits prod.splits dest: estimate_ports_length)

lemma run_estimator_elements:
  assumes "run_estimator lib n grid pattern cfg pilots = Inr (ch_est_out, info_out)"
  shows "\<exists>padding.
           elements ch_est_out =
             concat (path_estimates lib grid pilots cfg [0..<n]
                       (channel_estimate lib
                          \<lparr>nof_prb = to_unsigned (length (rb_mask pattern)),
                           ce_nof_symbols = to_unsigned (length (symbols pattern)),
                           ce_nof_rx_ports = n,
                           nof_tx_layers = 1\<rparr>))
               @ replicate padding 0"
proof -
  let ?dims = "\<lparr>nof_prb = to_unsigned (length (rb_mask pattern)),
                 ce_nof_symbols = to_unsigned (length (symbols pattern)),
                 ce_nof_rx_ports = n, nof_tx_layers = 1\<rparr>"
  let ?zeros = "replicate
      (prod_list [to_unsigned (nof_prb ?dims * NRE), ce_nof_symbols ?dims, n]) (0 :: cf_t)"
  from assms obtain e' iter' where
    "estimate_ports lib grid pilots cfg [0..<n] (channel_estimate lib ?dims, ?zeros, 0)
       = Inr (e', elements ch_est_out, iter')"
    unfolding run_estimator_def Let_def
    by (auto split: sum.splits prod.splits)
  from estimate_ports_elements [OF this] have
    "elements ch_est_out =
       concat (path_estimates lib grid pilots cfg [0..<n] (channel_estimate lib ?dims))
         @ drop iter' ?zeros"
    by simp
  then show ?thesis
    by (auto simp: drop_replicate)
qed

lemma run_estimator_final:
  assumes "run_estimator lib n grid pattern cfg pilots = Inr (ch_est_out, info_out)"
  shows "make_info_out lib
           (foldl (\<lambda>ch_estimate i_port. compute lib ch_estimate grid i_port pilots cfg)
              (channel_estimate lib
                 \<lparr>nof_prb = to_unsigned (length (rb_mask pattern)),
                  ce_nof_symbols = to_unsigned (length (symbols pattern)),
                  ce_nof_rx_ports = n,
                  nof_tx_layers = 1\<rparr>)
              [0..<n]) n = Inr info_out"
  using assms unfolding run_estimator_def Let_def
  by (auto split: sum.splits prod.splits dest!: estimate_ports_final)

lemma run_estimator_error:
  assumes "run_estimator lib n grid pattern cfg pilots = Inl e"
  shows "(\<exists>a b. e = Copy_out_of_range a b) \<or> (\<exists>k. e = Struct_index_out_of_range k)"
  using assms unfolding run_estimator_def Let_def
  by (auto split: sum.splits prod.splits dest: estimate_ports_error make_info_out_error)


lemma pattern_expected_pilots:
  assumes "make_dmrs_pattern lib (in_cfg call) = Inr pattern"
    and "capacities_in_range lib"
  shows "expected_pilots pattern =
     (bitset_count (RBMask (in_cfg call)) * bitset_count (REPattern (in_cfg call)),
      bitset_count (Symbols (in_cfg call)),
      bitset_count (RBMask (in_cfg call)) * bitset_count (REPattern (in_cfg call))
        * bitset_count (Symbols (in_cfg call)))"
  using expected_pilots_exact [OF pattern_counts_bounded [OF assms]]
    make_dmrs_pattern_Inr [OF assms(1)]
  by simp

text \<open>
  No call returns an output when the number of port indices differs from the number of
  ports of the grid, or the number of pilots from the number the pattern asks for.
\<close>

lemma mismatch_never_returns:
  assumes "capacities_in_range lib"
    and "to_unsigned (length (PortIndices (in_cfg call))) \<noteq> grid_nof_rx_ports call
         \<or> getNumberOfElements (refSym call)
             \<noteq> bitset_count (RBMask (in_cfg call)) * bitset_count (REPattern (in_cfg call))
                 * bitset_count (Symbols (in_cfg call))"
  shows "isl (estimator_method_step lib call)"
proof (cases "estimator_method_step lib call")
  case (Inl e)
  then show ?thesis by simp
next
  case (Inr r)
  from estimator_step_Inr [OF Inr] obtain pattern grid cfg where
    p: "make_dmrs_pattern lib (in_cfg call) = Inr pattern"
    and ports: "to_unsigned (length (PortIndices (in_cfg call))) = grid_nof_rx_ports call"
    and er: "estimate_and_report lib call grid pattern cfg = Inr r"
    by blast
  from estimate_and_report_Inr [OF er]
  have "getNumberOfElements (refSym call) = snd (snd (expected_pilots pattern))"
    by blast
  with pattern_expected_pilots [OF p assms(1)] ports assms(2) show ?thesis
    by simp
qed

subsection \<open>An example call\<close>

lemmas example_estimator_defs =
  example_estimator_library_def example_estimator_call_def estimator_check_step_outputs_inputs_def
  getNumberOfElements_def make_dmrs_pattern_def bounded_bitset_def bitset_count_def NRE_def
  grid_nof_subcarriers_def grid_nof_symbols_def grid_nof_rx_ports_def to_unsigned_def
  unsigned_minus_def fill_grid_def span_first_def span_last_def estimate_and_report_def
  expected_pilots_def make_pilots_def new_dmrs_symbol_list_def set_slice_def run_estimator_def
  copy_n_def make_info_out_def port_info_def global_info_def divide_by_ports_def
  make_configuration_def upt_conv_Cons Let_def


lemma example_estimator_step:
  "estimator_method_step example_estimator_library
     (example_estimator_call [12, 1, 2] [True] [0, 1] [1, 1]) =
   Inr (\<lparr>getType = COMPLEX_SINGLE, getDimensions = [12, 1, 2],
         elements = replicate 12 0 @ replicate 12 1\<rparr>,
        [[(''NoiseVar'', Scalar_double 1), (''RSRP'', Scalar_double 2),
          (''EPRE'', Scalar_double 3), (''SINR'', Scalar_double 10),
          (''TimeAlignment'', Scalar_double 0)],
         [(''NoiseVar'', Scalar_double 2), (''RSRP'', Scalar_double 6),
          (''EPRE'', Scalar_double 3), (''SINR'', Scalar_double 10),
          (''TimeAlignment'', Scalar_double 1)],
         [(''NoiseVar'', Scalar_double (3 / 2)), (''RSRP'', Scalar_double 4),
          (''EPRE'', Scalar_double 3), (''SINR'', Scalar_double_NaN),
          (''TimeAlignment'', Scalar_double (1 / 2))]])"
  by (simp add: estimator_method_step_def example_estimator_defs)
     (simp add: replicate_numeral_Cons list_update_Cons_numeral)

subsection \<open>Claims about the channel estimator\<close>

text \<open>
  Claim C6. When a call with at least one receive port returns, the records of metrics
  are one per port followed by one more; the record of a port holds the metrics of the
  estimate for that port, and the last record holds, for the noise variance, the RSRP,
  the EPRE and the time alignment, the sum over the ports divided by the number of
  ports, and a NaN for the SINR.
\<close>

theorem global_record_is_mean:
  assumes "estimator_method_step lib call = Inr (ch_est_out, info_out)"
    and "1 \<le> grid_nof_rx_ports call"
  shows "\<exists>ch_estimate.
           length info_out = grid_nof_rx_ports call + 1
         \<and> (\<forall>i_port < grid_nof_rx_ports call. info_out ! i_port = port_info lib ch_estimate i_port)
         \<and> last info_out =
             [(''NoiseVar'',
                 Scalar_double ((\<Sum>i < grid_nof_rx_ports call. get_noise_variance lib ch_estimate i)
                                  / real (grid_nof_rx_ports call))),
              (''RSRP'',
                 Scalar_double ((\<Sum>i < grid_nof_rx_ports call. get_rsrp lib ch_estimate i)
                                  / real (grid_nof_rx_ports call))),
              (''EPRE'',
                 Scalar_double ((\<Sum>i < grid_nof_rx_ports call. get_epre lib ch_estimate i)
                                  / real (grid_nof_rx_ports call))),
              (''SINR'', Scalar_double_NaN),
              (''TimeAlignment'',
                 Scalar_double
                   ((\<Sum>i < grid_nof_rx_ports call.
                        to_seconds (get_time_alignment lib ch_estimate i))
                      / real (grid_nof_rx_ports call)))]"
proof -
  let ?n = "grid_nof_rx_ports call"
  from estimator_step_Inr [OF assms(1)] obtain pattern grid cfg
    where "estimate_and_report lib call grid pattern cfg = Inr (ch_est_out, info_out)"
    by blast
  from estimate_and_report_Inr [OF this] obtain pilots
    where "run_estimator lib ?n grid pattern cfg pilots = Inr (ch_est_out, info_out)"
    by blast
  from run_estimator_Inr [OF this] obtain ch_estimate
    where "make_info_out lib ch_estimate ?n = Inr info_out"
    by blast
  from make_info_out_Inr [OF this] have info:
    "length info_out = ?n + 1"
    "\<forall>i_port < ?n. info_out ! i_port = port_info lib ch_estimate i_port"
    "info_out ! ?n =
           global_info
             \<lparr>total_noise_var = (\<Sum>i<?n. get_noise_variance lib ch_estimate i),
              total_rsrp = (\<Sum>i<?n. get_rsrp lib ch_estimate i),
              total_epre = (\<Sum>i<?n. get_epre lib ch_estimate i),
              total_time_alignment = (\<Sum>i<?n. to_seconds (get_time_alignment lib ch_estimate i))\<rparr> ?n"
    by blast+
  from info(1) have "info_out \<noteq> []" by auto
  then have "last info_out = info_out ! ?n"
    using info(1) by (simp add: last_conv_nth)
  with info(3) assms(2) have "last info_out =
             [(''NoiseVar'',
                 Scalar_double ((\<Sum>i < ?n. get_noise_variance lib ch_estimate i) / real ?n)),
              (''RSRP'', Scalar_double ((\<Sum>i < ?n. get_rsrp lib ch_estimate i) / real ?n)),
              (''EPRE'', Scalar_double ((\<Sum>i < ?n. get_epre lib ch_estimate i) / real ?n)),
              (''SINR'', Scalar_double_NaN),
              (''TimeAlignment'',
                 Scalar_double
                   ((\<Sum>i < ?n. to_seconds (get_time_alignment lib ch_estimate i)) / real ?n))]"
    by (simp add: global_info_def divide_by_ports_def)
  with info(1,2) show ?thesis
    by blast
qed

theorem global_record_is_mean_witness:
  "map_sum id (last \<circ> snd)
     (estimator_method_step example_estimator_library
        (example_estimator_call [12, 1, 2] [True] [0, 1] [1, 1]))
   = Inr [(''NoiseVar'', Scalar_double (3 / 2)), (''RSRP'', Scalar_double 4),
          (''EPRE'', Scalar_double 3), (''SINR'', Scalar_double_NaN),
          (''TimeAlignment'', Scalar_double (1 / 2))]"
proof -
  let ?call = "example_estimator_call [12, 1, 2] [True] [0, 1] [1, 1]"
  have n: "grid_nof_rx_ports ?call = 2"
    by (simp add: example_estimator_call_def grid_nof_rx_ports_def to_unsigned_def)
  from global_record_is_mean [OF example_estimator_step] n
  obtain ch_estimate where
    "last [[(''NoiseVar'', Scalar_double 1), (''RSRP'', Scalar_double 2),
          (''EPRE'', Scalar_double 3), (''SINR'', Scalar_double 10),
          (''TimeAlignment'', Scalar_double 0)],
         [(''NoiseVar'', Scalar_double 2), (''RSRP'', Scalar_double 6),
          (''EPRE'', Scalar_double 3), (''SINR'', Scalar_double 10),
          (''TimeAlignment'', Scalar_double 1)],
         [(''NoiseVar'', Scalar_double (3 / 2)), (''RSRP'', Scalar_double 4),
          (''EPRE'', Scalar_double 3), (''SINR'', Scalar_double_NaN),
          (''TimeAlignment'', Scalar_double (1 / 2))]] =
      [(''NoiseVar'',
          Scalar_double ((\<Sum>i < 2. get_noise_variance example_estimator_library ch_estimate i)
                           / real 2)),
       (''RSRP'',
          Scalar_double ((\<Sum>i < 2. get_rsrp example_estimator_library ch_estimate i) / real 2)),
       (''EPRE'',
          Scalar_double ((\<Sum>i < 2. get_epre example_estimator_library ch_estimate i) / real 2)),
       (''SINR'', Scalar_double_NaN),
       (''TimeAlignment'',
          Scalar_double
            ((\<Sum>i < 2. to_seconds (get_time_alignment example_estimator_library ch_estimate i))
               / real 2))]"
    by auto
  then show ?thesis
    by (simp only: example_estimator_step) simp
qed


text \<open>
  Claim C5. In a call that reaches the two checks (the arguments pass
  \<^verbatim>\<open>check_step_outputs_inputs\<close>, the configuration converts and the grid is created):
  when the number of port indices differs from the number of ports of the grid the call
  ends with the error "PortIndices and number of resource grid ports do not match";
  when these agree and the number of pilots differs from the number of bits set in the
  mask of resource blocks times that in the pattern of resource elements times that in
  the mask of symbols, the call ends with the error "Expected ... DM-RS symbols"; when
  both agree the call ends with neither error. The counts are those the code compares,
  read into \<^verbatim>\<open>unsigned\<close> variables.
\<close>

theorem port_and_pilot_counts_are_checked:
  assumes "estimator_check_step_outputs_inputs call = None"
    and "matlab_to_srs_cyclic_prefix lib (CyclicPrefix (in_cfg call)) = Inr in_cp"
    and "matlab_to_srs_subcarrier_spacing lib (SubcarrierSpacing (in_cfg call)) = Inr in_scs"
    and "make_dmrs_pattern lib (in_cfg call) = Inr pattern"
    and "create_resource_grid lib (grid_nof_subcarriers call) (grid_nof_symbols call)
           (grid_nof_rx_ports call) = Some grid"
    and "capacities_in_range lib"
    and "host_array (rxGrid call)"
    and "getNumberOfElements (rxGrid call) < 2 ^ 32"
    and "host_array (refSym call)"
  shows "(to_unsigned (length (PortIndices (in_cfg call))) \<noteq> grid_nof_rx_ports call \<longrightarrow>
            estimator_method_step lib call =
              Inl (Port_indices_mismatch (to_unsigned (length (PortIndices (in_cfg call))))
                     (grid_nof_rx_ports call)))
       \<and> (to_unsigned (length (PortIndices (in_cfg call))) = grid_nof_rx_ports call
          \<and> getNumberOfElements (refSym call)
               \<noteq> bitset_count (RBMask (in_cfg call)) * bitset_count (REPattern (in_cfg call))
                   * bitset_count (Symbols (in_cfg call)) \<longrightarrow>
            estimator_method_step lib call =
              Inl (Unexpected_number_of_dmrs_symbols
                     (bitset_count (RBMask (in_cfg call)) * bitset_count (REPattern (in_cfg call))
                        * bitset_count (Symbols (in_cfg call)))
                     (getNumberOfElements (refSym call))))
       \<and> (to_unsigned (length (PortIndices (in_cfg call))) = grid_nof_rx_ports call
          \<and> getNumberOfElements (refSym call)
               = bitset_count (RBMask (in_cfg call)) * bitset_count (REPattern (in_cfg call))
                   * bitset_count (Symbols (in_cfg call)) \<longrightarrow>
            (\<forall>a b. estimator_method_step lib call \<noteq> Inl (Port_indices_mismatch a b)
                 \<and> estimator_method_step lib call \<noteq> Inl (Unexpected_number_of_dmrs_symbols a b)))"
proof -
  let ?n = "grid_nof_rx_ports call"
  let ?product = "bitset_count (RBMask (in_cfg call)) * bitset_count (REPattern (in_cfg call))
                   * bitset_count (Symbols (in_cfg call))"
  let ?cfg = "make_configuration call in_cp in_scs pattern"
  note step = estimator_step_reaches_checks [OF assms(1-5)]
  note expected = pattern_expected_pilots [OF assms(4,6)]
  from assms(7) have "length (elements (rxGrid call)) = getNumberOfElements (rxGrid call)"
    by (simp add: host_array_def)
  from fill_grid_ok [where lib = lib and grid = grid, OF this assms(8) grid_dims_le [OF assms(1)]]
  obtain grid' where grid':
    "fill_grid lib (rxGrid call) (grid_nof_subcarriers call) (grid_nof_symbols call) ?n grid
       = Inr grid'"
    by blast
  have mismatch: "estimator_method_step lib call =
      Inl (Port_indices_mismatch (to_unsigned (length (PortIndices (in_cfg call)))) ?n)"
    if "to_unsigned (length (PortIndices (in_cfg call))) \<noteq> ?n"
    using that by (simp add: step)
  have report: "estimator_method_step lib call = estimate_and_report lib call grid' pattern ?cfg"
    if "to_unsigned (length (PortIndices (in_cfg call))) = ?n"
    using that by (simp add: step grid')
  have pilots: "estimate_and_report lib call grid' pattern ?cfg =
      Inl (Unexpected_number_of_dmrs_symbols ?product (getNumberOfElements (refSym call)))"
    if "getNumberOfElements (refSym call) \<noteq> ?product"
    using that by (simp add: estimate_and_report_def expected Let_def)
  have passes: "estimate_and_report lib call grid' pattern ?cfg \<noteq> Inl (Port_indices_mismatch a b)
      \<and> estimate_and_report lib call grid' pattern ?cfg
            \<noteq> Inl (Unexpected_number_of_dmrs_symbols a b)"
    if eq: "getNumberOfElements (refSym call) = ?product" for a b
  proof -
    from assms(9) eq have "length (elements (refSym call))
        = bitset_count (RBMask (in_cfg call)) * bitset_count (REPattern (in_cfg call))
            * bitset_count (Symbols (in_cfg call))"
      by (simp add: host_array_def)
    from make_pilots_ok [OF this, of ?n] obtain p where
      "make_pilots (elements (refSym call))
         (bitset_count (RBMask (in_cfg call)) * bitset_count (REPattern (in_cfg call)))
         (bitset_count (Symbols (in_cfg call))) ?n = Inr p"
      by blast
    then have "estimate_and_report lib call grid' pattern ?cfg
        = run_estimator lib ?n grid' pattern ?cfg p"
      using eq by (simp add: estimate_and_report_def expected Let_def)
    then show ?thesis
      using run_estimator_error [of lib ?n grid' pattern ?cfg p]
      by (cases "run_estimator lib ?n grid' pattern ?cfg p") auto
  qed
  show ?thesis
    using mismatch report pilots passes by simp
qed


theorem port_and_pilot_counts_are_checked_witness:
  "estimator_method_step example_estimator_library
     (example_estimator_call [12, 1, 2] [True] [0] [1, 1]) = Inl (Port_indices_mismatch 1 2)
   \<and> estimator_method_step example_estimator_library
       (example_estimator_call [12, 1, 2] [True] [0, 1] [1, 1, 1])
       = Inl (Unexpected_number_of_dmrs_symbols 2 3)
   \<and> \<not> isl (estimator_method_step example_estimator_library
              (example_estimator_call [12, 1, 2] [True] [0, 1] [1, 1]))"
proof -
  have lib: "capacities_in_range example_estimator_library"
    by (simp add: capacities_in_range_def example_estimator_library_def NRE_def)
  have pattern: "make_dmrs_pattern example_estimator_library
      (in_cfg (example_estimator_call [12, 1, 2] [True] ports pilots)) =
      Inr \<lparr>symbols = [True], rb_mask = [True], rb_mask2 = [], hopping_symbol_index = None,
           re_pattern = [True, False, True, False, False, False, False, False, False, False,
                         False, False]\<rparr>" for ports pilots
    by (simp add: example_estimator_defs)
  have a: "estimator_method_step example_estimator_library
     (example_estimator_call [12, 1, 2] [True] [0] [1, 1]) = Inl (Port_indices_mismatch 1 2)"
    using port_and_pilot_counts_are_checked
      [of "example_estimator_call [12, 1, 2] [True] [0] [1, 1]" example_estimator_library
          NORMAL kHz15, OF _ _ _ pattern _ lib]
    by (simp add: example_estimator_defs host_array_def)
  have b: "estimator_method_step example_estimator_library
       (example_estimator_call [12, 1, 2] [True] [0, 1] [1, 1, 1])
       = Inl (Unexpected_number_of_dmrs_symbols 2 3)"
    using port_and_pilot_counts_are_checked
      [of "example_estimator_call [12, 1, 2] [True] [0, 1] [1, 1, 1]" example_estimator_library
          NORMAL kHz15, OF _ _ _ pattern _ lib]
    by (simp add: example_estimator_defs host_array_def)
  have c: "\<not> isl (estimator_method_step example_estimator_library
            (example_estimator_call [12, 1, 2] [True] [0, 1] [1, 1]))"
    by (simp only: example_estimator_step) simp
  from a b c show ?thesis
    by simp
qed

text \<open>
  Claim C8, as the code has it. When a call returns, the channel estimate is an array of
  complex floats with all its elements, whose dimensions are 12 times the length of the
  mask of resource blocks, the length of the mask of DM-RS symbols, and the number of
  receive ports. The length of a mask counts its bits whether they are set or not. The
  elements are the path estimates of the ports for the one transmit layer, one after the
  other in the order of the ports, and zeros after them where the library returns
  fewer elements than the array has.
\<close>

theorem channel_estimate_output_dimensions:
  assumes "estimator_method_step lib call = Inr (ch_est_out, info_out)"
    and "capacities_in_range lib"
  shows "getType ch_est_out = COMPLEX_SINGLE
       \<and> getDimensions ch_est_out =
           [length (RBMask (in_cfg call)) * 12, length (Symbols (in_cfg call)),
            grid_nof_rx_ports call]
       \<and> length (elements ch_est_out) =
           length (RBMask (in_cfg call)) * 12 * length (Symbols (in_cfg call))
             * grid_nof_rx_ports call
       \<and> (\<exists>grid pilots cfg padding.
             elements ch_est_out =
               concat (path_estimates lib grid pilots cfg [0..<grid_nof_rx_ports call]
                         (channel_estimate lib
                            \<lparr>nof_prb = length (RBMask (in_cfg call)),
                             ce_nof_symbols = length (Symbols (in_cfg call)),
                             ce_nof_rx_ports = grid_nof_rx_ports call,
                             nof_tx_layers = 1\<rparr>))
                 @ replicate padding 0)"
proof -
  let ?n = "grid_nof_rx_ports call"
  from estimator_step_Inr [OF assms(1)] obtain pattern grid cfg
    where p: "make_dmrs_pattern lib (in_cfg call) = Inr pattern"
      and "estimate_and_report lib call grid pattern cfg = Inr (ch_est_out, info_out)"
    by blast
  from estimate_and_report_Inr [OF this(2)] obtain pilots
    where run: "run_estimator lib ?n grid pattern cfg pilots = Inr (ch_est_out, info_out)"
    by blast
  from run_estimator_Inr [OF run] have out:
    "getType ch_est_out = COMPLEX_SINGLE"
    "getDimensions ch_est_out =
       [to_unsigned (to_unsigned (length (rb_mask pattern)) * NRE),
        to_unsigned (length (symbols pattern)), ?n]"
    "length (elements ch_est_out) = prod_list (getDimensions ch_est_out)"
    by blast+
  from make_dmrs_pattern_Inr [OF p] have m:
    "symbols pattern = Symbols (in_cfg call)" "length (Symbols (in_cfg call)) \<le> MAX_NSYMB_PER_SLOT lib"
    "rb_mask pattern = RBMask (in_cfg call)" "length (RBMask (in_cfg call)) \<le> MAX_RB lib"
    by blast+
  from m(4) have "length (RBMask (in_cfg call)) * NRE \<le> MAX_RB lib * NRE"
    by simp
  with assms(2) have rb: "length (RBMask (in_cfg call)) * NRE < 2 ^ 32"
    unfolding capacities_in_range_def by linarith
  have "length (RBMask (in_cfg call)) \<le> length (RBMask (in_cfg call)) * NRE"
    by (simp add: NRE_def)
  with rb have rb1: "length (RBMask (in_cfg call)) < 2 ^ 32"
    by linarith
  from m(2) assms(2) have sy: "length (Symbols (in_cfg call)) < 2 ^ 32"
    unfolding capacities_in_range_def by linarith
  have dims: "getDimensions ch_est_out =
      [length (RBMask (in_cfg call)) * 12, length (Symbols (in_cfg call)), ?n]"
    using out(2) m(1,3) rb rb1 sy by (simp add: to_unsigned_id) (simp add: NRE_def)
  from run_estimator_elements [OF run] obtain padding where
    "elements ch_est_out =
       concat (path_estimates lib grid pilots cfg [0..<?n]
                 (channel_estimate lib
                    \<lparr>nof_prb = length (RBMask (in_cfg call)),
                     ce_nof_symbols = length (Symbols (in_cfg call)),
                     ce_nof_rx_ports = ?n, nof_tx_layers = 1\<rparr>))
         @ replicate padding 0"
    using m(1,3) rb1 sy by (auto simp: to_unsigned_id)
  then have "\<exists>grid pilots cfg padding.
      elements ch_est_out =
        concat (path_estimates lib grid pilots cfg [0..<?n]
                  (channel_estimate lib
                     \<lparr>nof_prb = length (RBMask (in_cfg call)),
                      ce_nof_symbols = length (Symbols (in_cfg call)),
                      ce_nof_rx_ports = ?n, nof_tx_layers = 1\<rparr>))
          @ replicate padding 0"
    by blast
  with dims out(1,3) show ?thesis
    by simp
qed

theorem channel_estimate_output_dimensions_witness:
  "map_sum id (getDimensions \<circ> fst)
     (estimator_method_step example_estimator_library
        (example_estimator_call [12, 1, 2] [True] [0, 1] [1, 1])) = Inr [12, 1, 2]"
proof -
  have "capacities_in_range example_estimator_library"
    by (simp add: capacities_in_range_def example_estimator_library_def NRE_def)
  from channel_estimate_output_dimensions [OF example_estimator_step this]
  show ?thesis
    by (simp only: example_estimator_step) simp
qed

text \<open>
  Claim C8 as it is written fails when the mask of resource blocks has a bit that is
  not set: with the mask \<open>[True, False]\<close> one resource block is allocated, twelve
  subcarriers, and the first dimension of the estimate is 24.
\<close>

theorem estimate_covers_unallocated_blocks:
  "map_sum id (getDimensions \<circ> fst)
     (estimator_method_step example_estimator_library
        (example_estimator_call [24, 1, 1] [True, False] [0] [1, 1])) = Inr [24, 1, 1]
   \<and> bitset_count
        (RBMask (in_cfg (example_estimator_call [24, 1, 1] [True, False] [0] [1, 1]))) * 12 = 12"
  by (simp add: estimator_method_step_def example_estimator_defs)

text \<open>
  Claim C9. When a call returns, what it returns was computed with one list of pilots,
  which has one slice for each receive port, every slice the array \<^verbatim>\<open>refSym\<close> of the
  call: the estimator was called once for each port, in the order of the ports, each
  time with this list; the channel estimate holds the path estimates these calls gave,
  and the record of metrics of a port is read from the estimate after the last of them.
\<close>

theorem same_pilots_for_every_port:
  assumes "estimator_method_step lib call = Inr (ch_est_out, info_out)"
  shows "\<exists>grid cfg padding.
           (let nof_rx_ports = grid_nof_rx_ports call;
                pilots =
                  \<lparr>pilot_dims =
                     \<lparr>nof_subc =
                        to_unsigned (bitset_count (RBMask (in_cfg call))
                                       * bitset_count (REPattern (in_cfg call))),
                      re_nof_symbols = to_unsigned (bitset_count (Symbols (in_cfg call))),
                      nof_slices = nof_rx_ports\<rparr>,
                   slices = replicate nof_rx_ports (elements (refSym call))\<rparr>;
                ch_estimate =
                  channel_estimate lib
                    \<lparr>nof_prb = to_unsigned (length (RBMask (in_cfg call))),
                     ce_nof_symbols = to_unsigned (length (Symbols (in_cfg call))),
                     ce_nof_rx_ports = nof_rx_ports,
                     nof_tx_layers = 1\<rparr>
            in elements ch_est_out =
                 concat (path_estimates lib grid pilots cfg [0..<nof_rx_ports] ch_estimate)
                   @ replicate padding 0
             \<and> map (\<lambda>i_port. info_out ! i_port) [0..<nof_rx_ports] =
                 map (port_info lib
                        (foldl (\<lambda>ch_estimate i_port. compute lib ch_estimate grid i_port pilots cfg)
                           ch_estimate [0..<nof_rx_ports]))
                   [0..<nof_rx_ports])"
proof -
  let ?n = "grid_nof_rx_ports call"
  let ?pilots = "\<lparr>pilot_dims =
                     \<lparr>nof_subc =
                        to_unsigned (bitset_count (RBMask (in_cfg call))
                                       * bitset_count (REPattern (in_cfg call))),
                      re_nof_symbols = to_unsigned (bitset_count (Symbols (in_cfg call))),
                      nof_slices = ?n\<rparr>,
                   slices = replicate ?n (elements (refSym call))\<rparr>"
  let ?e0 = "channel_estimate lib
                    \<lparr>nof_prb = to_unsigned (length (RBMask (in_cfg call))),
                     ce_nof_symbols = to_unsigned (length (Symbols (in_cfg call))),
                     ce_nof_rx_ports = ?n,
                     nof_tx_layers = 1\<rparr>"
  from estimator_step_Inr [OF assms] obtain pattern grid cfg
    where p: "make_dmrs_pattern lib (in_cfg call) = Inr pattern"
      and "estimate_and_report lib call grid pattern cfg = Inr (ch_est_out, info_out)"
    by blast
  from estimate_and_report_Inr [OF this(2)] obtain pilots
    where made: "make_pilots (elements (refSym call)) (fst (expected_pilots pattern))
               (fst (snd (expected_pilots pattern))) ?n = Inr pilots"
      and run: "run_estimator lib ?n grid pattern cfg pilots = Inr (ch_est_out, info_out)"
    by blast
  from make_dmrs_pattern_Inr [OF p] have m:
    "symbols pattern = Symbols (in_cfg call)" "rb_mask pattern = RBMask (in_cfg call)"
    "re_pattern pattern = REPattern (in_cfg call)"
    by blast+
  from make_pilots_Inr [OF made] have pilots: "pilots = ?pilots"
    by (simp add: expected_pilots_def Let_def m)
  from run_estimator_elements [OF run] obtain padding where out:
    "elements ch_est_out =
       concat (path_estimates lib grid ?pilots cfg [0..<?n] ?e0) @ replicate padding 0"
    unfolding pilots m by blast
  from run_estimator_final [OF run]
  have "make_info_out lib
          (foldl (\<lambda>ch_estimate i_port. compute lib ch_estimate grid i_port ?pilots cfg) ?e0
             [0..<?n]) ?n = Inr info_out"
    unfolding pilots m .
  from make_info_out_Inr [OF this]
  have "\<forall>i_port < ?n. info_out ! i_port =
      port_info lib
        (foldl (\<lambda>ch_estimate i_port. compute lib ch_estimate grid i_port ?pilots cfg) ?e0
           [0..<?n]) i_port"
    by blast
  then have "map (\<lambda>i_port. info_out ! i_port) [0..<?n] =
      map (port_info lib
             (foldl (\<lambda>ch_estimate i_port. compute lib ch_estimate grid i_port ?pilots cfg) ?e0
                [0..<?n]))
        [0..<?n]"
    by simp
  with out show ?thesis
    unfolding Let_def by blast
qed

theorem same_pilots_for_every_port_witness:
  "map_sum id (map (\<lambda>record. map_of record ''EPRE'') \<circ> snd)
     (estimator_method_step example_estimator_library
        (example_estimator_call [12, 1, 2] [True] [0, 1] [5, 7]))
   = Inr [Some (Scalar_double 13), Some (Scalar_double 13), Some (Scalar_double 13)]"
proof -
  let ?call = "example_estimator_call [12, 1, 2] [True] [0, 1] [5, 7]"
  let ?info = "[[(''NoiseVar'', Scalar_double 1), (''RSRP'', Scalar_double 2),
          (''EPRE'', Scalar_double 13), (''SINR'', Scalar_double 10),
          (''TimeAlignment'', Scalar_double 0)],
         [(''NoiseVar'', Scalar_double 2), (''RSRP'', Scalar_double 6),
          (''EPRE'', Scalar_double 13), (''SINR'', Scalar_double 10),
          (''TimeAlignment'', Scalar_double 1)],
         [(''NoiseVar'', Scalar_double (3 / 2)), (''RSRP'', Scalar_double 4),
          (''EPRE'', Scalar_double 13), (''SINR'', Scalar_double_NaN),
          (''TimeAlignment'', Scalar_double (1 / 2))]]"
  have step: "estimator_method_step example_estimator_library ?call =
   Inr (\<lparr>getType = COMPLEX_SINGLE, getDimensions = [12, 1, 2],
         elements = replicate 12 0 @ replicate 12 1\<rparr>, ?info)"
    by (simp add: estimator_method_step_def example_estimator_defs)
       (simp add: replicate_numeral_Cons list_update_Cons_numeral)
  from same_pilots_for_every_port [OF step] obtain grid cfg where
    "map (\<lambda>i_port. ?info ! i_port) [0..<grid_nof_rx_ports ?call] =
       map (port_info example_estimator_library
             (foldl (\<lambda>ch_estimate i_port.
                       compute example_estimator_library ch_estimate grid i_port
                         \<lparr>pilot_dims =
                            \<lparr>nof_subc =
                               to_unsigned (bitset_count (RBMask (in_cfg ?call))
                                              * bitset_count (REPattern (in_cfg ?call))),
                             re_nof_symbols = to_unsigned (bitset_count (Symbols (in_cfg ?call))),
                             nof_slices = grid_nof_rx_ports ?call\<rparr>,
                          slices = replicate (grid_nof_rx_ports ?call) (elements (refSym ?call))\<rparr>
                         cfg)
                (channel_estimate example_estimator_library
                   \<lparr>nof_prb = to_unsigned (length (RBMask (in_cfg ?call))),
                    ce_nof_symbols = to_unsigned (length (Symbols (in_cfg ?call))),
                    ce_nof_rx_ports = grid_nof_rx_ports ?call, nof_tx_layers = 1\<rparr>)
                [0..<grid_nof_rx_ports ?call]))
         [0..<grid_nof_rx_ports ?call]"
    unfolding Let_def by blast
  then show ?thesis
    by (simp only: step) simp
qed

end
